theory Spec2Isabelle
  imports Main "HOL-Library.Word"
begin

section \<open>Values of the program\<close>

text \<open>
  Pointers, handles and \<^verbatim>\<open>DWORD_PTR\<close> values are machine words; the model takes the
  64-bit build, where all three are 64 bits wide (arithmetic on them wraps around).
  \<^verbatim>\<open>DWORD\<close>, \<^verbatim>\<open>LONG\<close>, \<^verbatim>\<open>BOOL\<close> and \<^verbatim>\<open>NTSTATUS\<close> are 32 bits wide; a signed reading is
  taken with \<open>sint\<close> where the source compares a signed value. A path
  (\<^verbatim>\<open>fs::path\<close>, \<^verbatim>\<open>wchar_t*\<close>) is a list of 16-bit characters, a \<^verbatim>\<open>std::string\<close> is a
  \<open>string\<close>.
\<close>

type_synonym addr = "64 word"
type_synonym dword = "32 word"
type_synonym wchar_t = "16 word"
type_synonym wstring = "wchar_t list"

record Process =
  proc_id :: dword
  proc_handle :: addr

record Thread =
  thread_id :: dword
  thread_handle :: addr

text \<open>
  A \<^verbatim>\<open>Module\<close> is its base address (the handle), the process that owns it and, for a
  module made by \<^verbatim>\<open>Module(handle, process, FreeLibrary)\<close>, the release action.
\<close>

record Module =
  mod_handle :: addr
  mod_process :: Process
  mod_FreeLibrary :: bool

text \<open>
  Of a \<^verbatim>\<open>Library\<close> the code reads the member \<^verbatim>\<open>path\<close> and the result of
  \<^verbatim>\<open>ntFilename()\<close>.
\<close>

record Library =
  lib_path :: wstring
  lib_ntFilename :: wstring

text \<open>The fields that \<^verbatim>\<open>Process::inject\<close> reads from the two image headers.\<close>

record image_header =
  e_lfanew :: dword
  AddressOfEntryPoint :: dword
  SizeOfImage :: dword
  CheckSum :: dword

subsection \<open>Exceptions\<close>

text \<open>
  \<^verbatim>\<open>BOOST_THROW_EXCEPTION(ex_injection() << e_text(..) << e_pid(..))\<close> is the pair of the
  exception class and the list of the attached fields, in the order of the source.
\<close>

datatype ex_kind = ex_injection | ex_get_module_handle | ex_suspend_resume_process

datatype e_info =
    e_text string
  | e_api_function string
  | e_last_error dword
  | e_pid dword
  | e_module wstring
  | e_nt_status dword
  | e_process Process

type_synonym error = "ex_kind \<times> e_info list"

subsection \<open>Calls that leave the program\<close>

text \<open>
  Every call of the operating system, and every call of a function of the repository
  whose body is not in the two source files, is recorded with its arguments and, where
  the code reads it, its result (for a call that may throw, the exception or the value).
\<close>

datatype event =
    Ev_GetModuleHandleW wstring addr
  | Ev_GetProcAddress addr string addr
  | Ev_Module_path Module "error + wstring"
  | Ev_LoadLibraryExW wstring dword addr
  | Ev_FreeLibrary addr
  | Ev_ModuleInjectedW addr wstring addr
  | Ev_VirtualAllocEx addr nat addr
  | Ev_VirtualFreeEx addr addr
  | Ev_WriteProcessMemory addr addr wstring nat bool nat
  | Ev_FlushInstructionCache addr addr nat bool
  | Ev_createRemoteThread Process addr addr "error + Thread"
  | Ev_setPriority Thread int "error + unit"
  | Ev_hideFromDebugger Thread "error + unit"
  | Ev_waitForTermination Thread "error + dword"
  | Ev_ReadProcessMemory addr addr nat bool nat
  | Ev_wprintf wstring dword addr addr dword dword dword
  | Ev_call_NTAPI addr addr dword
  | Ev_call_IsWow64Process addr addr dword dword
  | Ev_MyGetSystemInfo "16 word"

text \<open>
  The environment: the operating system over a state \<open>'s\<close> of its own, and the functions
  of the repository that the two source files call but do not define
  (\<^verbatim>\<open>Module::path\<close>, \<^verbatim>\<open>ModuleInjectedW\<close>, \<^verbatim>\<open>Process::createRemoteThread\<close>, the three
  \<^verbatim>\<open>Thread\<close> methods, \<^verbatim>\<open>MyGetSystemInfo\<close>), taken as parameters. A call takes the
  state and returns its result with the next state. \<open>call_NTAPI f h\<close> and
  \<open>call_IsWow64Process f h\<close> call through the function pointer \<open>f\<close>; the second returns
  the \<^verbatim>\<open>BOOL\<close> result and the value of the \<^verbatim>\<open>BOOL\<close> variable passed by address, as it is
  after the call.
\<close>

record 's env =
  current :: Process
  Process_default :: Process
  GetLastError :: "'s \<Rightarrow> dword"
  GetModuleHandleW :: "wstring \<Rightarrow> 's \<Rightarrow> addr \<times> 's"
  GetProcAddress :: "addr \<Rightarrow> string \<Rightarrow> 's \<Rightarrow> addr \<times> 's"
  LoadLibraryExW :: "wstring \<Rightarrow> dword \<Rightarrow> 's \<Rightarrow> addr \<times> 's"
  FreeLibrary :: "addr \<Rightarrow> 's \<Rightarrow> unit \<times> 's"
  Module_path :: "Module \<Rightarrow> 's \<Rightarrow> (error + wstring) \<times> 's"
  ModuleInjectedW :: "addr \<Rightarrow> wstring \<Rightarrow> 's \<Rightarrow> addr \<times> 's"
  VirtualAllocEx :: "addr \<Rightarrow> nat \<Rightarrow> 's \<Rightarrow> addr \<times> 's"
  VirtualFreeEx :: "addr \<Rightarrow> addr \<Rightarrow> 's \<Rightarrow> unit \<times> 's"
  WriteProcessMemory :: "addr \<Rightarrow> addr \<Rightarrow> wstring \<Rightarrow> nat \<Rightarrow> 's \<Rightarrow> (bool \<times> nat) \<times> 's"
  FlushInstructionCache :: "addr \<Rightarrow> addr \<Rightarrow> nat \<Rightarrow> 's \<Rightarrow> bool \<times> 's"
  createRemoteThread :: "Process \<Rightarrow> addr \<Rightarrow> addr \<Rightarrow> 's \<Rightarrow> (error + Thread) \<times> 's"
  setPriority :: "Thread \<Rightarrow> int \<Rightarrow> 's \<Rightarrow> (error + unit) \<times> 's"
  hideFromDebugger :: "Thread \<Rightarrow> 's \<Rightarrow> (error + unit) \<times> 's"
  waitForTermination :: "Thread \<Rightarrow> 's \<Rightarrow> (error + dword) \<times> 's"
  ReadProcessMemory :: "addr \<Rightarrow> addr \<Rightarrow> nat \<Rightarrow> 's \<Rightarrow> (bool \<times> nat \<times> image_header) \<times> 's"
  call_NTAPI :: "addr \<Rightarrow> addr \<Rightarrow> 's \<Rightarrow> dword \<times> 's"
  call_IsWow64Process :: "addr \<Rightarrow> addr \<Rightarrow> 's \<Rightarrow> (dword \<times> dword) \<times> 's"
  MyGetSystemInfo :: "'s \<Rightarrow> 16 word \<times> 's"

text \<open>
  A run threads a world through the calls: the state of the environment and the calls
  made so far, oldest first. \<open>os_call f ev\<close> makes one call and records it.
\<close>

type_synonym 's world = "'s \<times> event list"

definition os_call :: "('s \<Rightarrow> 'r \<times> 's) \<Rightarrow> ('r \<Rightarrow> event) \<Rightarrow> 's world \<Rightarrow> 'r \<times> 's world" where
  "os_call f ev w = (case f (fst w) of (r, s') \<Rightarrow> (r, (s', snd w @ [ev r])))"

text \<open>
  A scoped owner with a release action (\<^verbatim>\<open>shared_ptr<void>(p, deleter)\<close>, a \<^verbatim>\<open>Module\<close>
  made with \<^verbatim>\<open>FreeLibrary\<close>): the body runs, then the release action runs whether the
  body returned or threw, and the outcome of the body stands.
\<close>

definition scoped :: "('s world \<Rightarrow> unit \<times> 's world) \<Rightarrow> ('s world \<Rightarrow> 'a \<times> 's world) \<Rightarrow> 's world \<Rightarrow> 'a \<times> 's world" where
  "scoped release body w = (case body w of (r, w') \<Rightarrow> (r, snd (release w')))"

section \<open>module.hpp\<close>

text \<open>
  Modelled from the spec: \<^verbatim>\<open>operator!=\<close> of \<^verbatim>\<open>Process\<close>, declared in process.hpp, which
  is not among the source files. The spec: two Process values are equal iff their
  process ids match.
\<close>

definition Process_neq :: "Process \<Rightarrow> Process \<Rightarrow> bool" where
  "Process_neq p q = (proc_id p \<noteq> proc_id q)"

text \<open>
  A narrow literal that initialises an \<^verbatim>\<open>fs::path\<close> (\<^verbatim>\<open>Module("kernel32")\<close>), and the
  narrow form \<^verbatim>\<open>moduleName.string()\<close> of a path, which the code only puts into error
  texts (characters are mapped by their code).
\<close>

definition widen :: "string \<Rightarrow> wstring" where
  "widen s = map (\<lambda>c. of_nat (of_char c)) s"

definition path_string :: "wstring \<Rightarrow> string" where
  "path_string p = map (\<lambda>c. char_of (unat c)) p"

definition quoted :: "string \<Rightarrow> string" where
  "quoted s = [CHR 0x27] @ s @ [CHR 0x27]"

definition DONT_RESOLVE_DLL_REFERENCES :: dword where
  "DONT_RESOLVE_DLL_REFERENCES = 1"

text \<open>\<^verbatim>\<open>Module()\<close>: the null handle in \<^verbatim>\<open>Process()\<close>, no release action.\<close>

definition Module_empty :: "'s env \<Rightarrow> Module" where
  "Module_empty env = \<lparr>mod_handle = 0, mod_process = Process_default env, mod_FreeLibrary = False\<rparr>"

text \<open>\<^verbatim>\<open>Module(const fs::path& moduleName)\<close>, module.hpp lines 34 to 42.\<close>

definition Module_named :: "'s env \<Rightarrow> wstring \<Rightarrow> 's world \<Rightarrow> (error + Module) \<times> 's world" where
  "Module_named env moduleName w =
     (case os_call (GetModuleHandleW env moduleName) (Ev_GetModuleHandleW moduleName) w of
        (h, w1) \<Rightarrow>
          if h = 0 then
            (Inl (ex_get_module_handle,
                  [e_api_function ''GetModuleHandle'',
                   e_text (''could not get handle to module '' @ quoted (path_string moduleName)),
                   e_last_error (GetLastError env (fst w1))]), w1)
          else (Inr \<lparr>mod_handle = h, mod_process = current env, mod_FreeLibrary = False\<rparr>, w1))"

text \<open>\<^verbatim>\<open>Module::load\<close>, module.hpp lines 44 to 61.\<close>

definition load :: "'s env \<Rightarrow> wstring \<Rightarrow> dword \<Rightarrow> bool \<Rightarrow> bool \<Rightarrow> 's world \<Rightarrow> (error + Module) \<times> 's world" where
  "load env moduleName flags freeOnDestruction throwing w =
     (case os_call (LoadLibraryExW env moduleName flags) (Ev_LoadLibraryExW moduleName flags) w of
        (handle_, w1) \<Rightarrow>
          if handle_ = 0 then
            (if \<not> throwing then (Inr (Module_empty env), w1)
             else (Inl (ex_get_module_handle,
                        [e_api_function ''LoadLibraryEx'',
                         e_text (''could not load module '' @ quoted (path_string moduleName) @ '' locally''),
                         e_last_error (GetLastError env (fst w1))]), w1))
          else (Inr \<lparr>mod_handle = handle_, mod_process = current env,
                     mod_FreeLibrary = freeOnDestruction\<rparr>, w1))"

text \<open>
  The end of life of a \<^verbatim>\<open>Module\<close> value: its release action, if it has one, is called
  on the handle.
\<close>

definition Module_release :: "'s env \<Rightarrow> Module \<Rightarrow> 's world \<Rightarrow> unit \<times> 's world" where
  "Module_release env m w =
     (if mod_FreeLibrary m then os_call (FreeLibrary env (mod_handle m)) (\<lambda>_. Ev_FreeLibrary (mod_handle m)) w
      else ((), w))"

text \<open>
  \<^verbatim>\<open>Module::getProcAddress(string procName, bool throwing = true)\<close>, module.hpp lines 71
  to 97. The call on \<^verbatim>\<open>localModule\<close> passes no second argument, so it runs with
  \<^verbatim>\<open>throwing = true\<close>. \<^verbatim>\<open>localModule\<close> lives until the function is left.
\<close>

function getProcAddress :: "'s env \<Rightarrow> Module \<Rightarrow> string \<Rightarrow> bool \<Rightarrow> 's world \<Rightarrow> (error + addr) \<times> 's world" where
  "getProcAddress env m procName throwing w =
     (if Process_neq (mod_process m) (current env) then
        (case os_call (Module_path env m) (Ev_Module_path m) w of
           (Inl e, w1) \<Rightarrow> (Inl e, w1)
         | (Inr p, w1) \<Rightarrow>
             (case load env p DONT_RESOLVE_DLL_REFERENCES True throwing w1 of
                (Inl e, w2) \<Rightarrow> (Inl e, w2)
              | (Inr localModule, w2) \<Rightarrow>
                  scoped (Module_release env localModule)
                    (\<lambda>w2.
                      if \<not> throwing \<and> mod_handle localModule = 0 then (Inr 0, w2)
                      else
                        (case getProcAddress env localModule procName True w2 of
                           (Inl e, w3) \<Rightarrow> (Inl e, w3)
                         | (Inr a, w3) \<Rightarrow>
                             (Inr (mod_handle m + (a - mod_handle localModule)), w3))) w2))
      else
        (case os_call (GetProcAddress env (mod_handle m) procName)
                (Ev_GetProcAddress (mod_handle m) procName) w of
           (procAddress, w1) \<Rightarrow>
             if procAddress = 0 then
               (if \<not> throwing then (Inr 0, w1)
                else (Inl (ex_injection,
                           [e_api_function ''GetProcAddress'',
                            e_text (''could not get the address of '' @ quoted procName),
                            e_last_error (GetLastError env (fst w1))]), w1))
             else (Inr procAddress, w1)))"
  by pat_completeness auto

termination getProcAddress
  apply (relation "measure (\<lambda>(env, m, procName, throwing, w).
                     if Process_neq (mod_process m) (current env) then 1 else 0)")
   apply simp
  apply (auto simp: load_def os_call_def Module_empty_def Process_neq_def
              split: prod.splits if_splits)
  done

text \<open>
  \<^verbatim>\<open>class ModuleKernel32\<close>: the module and the two exports bound by the constructor;
  \<^verbatim>\<open>ModuleKernel32::isWow64Process\<close>, module.hpp lines 140 to 149. \<^verbatim>\<open>!isWow64\<close> of a
  \<^verbatim>\<open>BOOL\<close> is true exactly for the value 0.
\<close>

record ModuleKernel32 =
  k32_module :: Module
  isWow64Process_fn :: addr
  getNativeSystemInfo_fn :: addr

definition isWow64Process :: "'s env \<Rightarrow> ModuleKernel32 \<Rightarrow> Process \<Rightarrow> 's world \<Rightarrow> (error + bool) \<times> 's world" where
  "isWow64Process env k proc w =
     (case os_call (call_IsWow64Process env (isWow64Process_fn k) (proc_handle proc))
             (\<lambda>(r, b). Ev_call_IsWow64Process (isWow64Process_fn k) (proc_handle proc) r b) w of
        ((r, isWow64), w1) \<Rightarrow>
          if r = 0 then
            (Inl (ex_injection,
                  [e_api_function ''IsWow64Process'', e_process proc,
                   e_last_error (GetLastError env (fst w1))]), w1)
          else (Inr (isWow64 = 0), w1))"

text \<open>\<^verbatim>\<open>ModuleNtdll::NT_SUCCESS\<close>, module.hpp lines 193 to 196: \<^verbatim>\<open>status >= 0\<close>, signed.\<close>

definition NT_SUCCESS :: "dword \<Rightarrow> bool" where
  "NT_SUCCESS status = (0 \<le> sint status)"

section \<open>process.cpp\<close>

text \<open>\<^verbatim>\<open>Process::suspend\<close>, process.cpp lines 37 to 51.\<close>

definition suspend :: "'s env \<Rightarrow> Process \<Rightarrow> bool \<Rightarrow> 's world \<Rightarrow> (error + unit) \<times> 's world" where
  "suspend env self do_suspend w =
     (case Module_named env (widen ''ntdll'') w of
        (Inl e, w1) \<Rightarrow> (Inl e, w1)
      | (Inr ntDll, w1) \<Rightarrow>
          (case (if do_suspend then getProcAddress env ntDll ''NtSuspendProcess'' True w1
                 else getProcAddress env ntDll ''NtResumeProcess'' True w1) of
             (Inl e, w2) \<Rightarrow> (Inl e, w2)
           | (Inr suspend_resume, w2) \<Rightarrow>
               (case os_call (call_NTAPI env suspend_resume (proc_handle self))
                       (Ev_call_NTAPI suspend_resume (proc_handle self)) w2 of
                  (ntStatus, w3) \<Rightarrow>
                    if \<not> NT_SUCCESS ntStatus then
                      (Inl (ex_suspend_resume_process, [e_nt_status ntStatus]), w3)
                    else (Inr (), w3))))"

text \<open>
  \<^verbatim>\<open>wcslen\<close> counts the characters before the first terminator, and a \<^verbatim>\<open>wchar_t\<close> of the
  platform is two bytes. \<^verbatim>\<open>LibPathLen\<close> is a \<^verbatim>\<open>SIZE_T\<close>; the string lies in memory with
  its terminator, so the product is below the size of the address space and is taken
  in \<open>nat\<close>.
\<close>

definition wcslen :: "wstring \<Rightarrow> nat" where
  "wcslen cs = length (takeWhile (\<lambda>c. c \<noteq> 0) cs)"

definition sizeof_wchar_t :: nat where
  "sizeof_wchar_t = 2"

definition LibPathLen :: "Library \<Rightarrow> nat" where
  "LibPathLen lib = (wcslen (lib_path lib) + 1) * sizeof_wchar_t"

definition sizeof_IMAGE_DOS_HEADER :: nat where
  "sizeof_IMAGE_DOS_HEADER = 64"

definition sizeof_IMAGE_NT_HEADERS :: nat where
  "sizeof_IMAGE_NT_HEADERS = 264"

definition THREAD_PRIORITY_TIME_CRITICAL :: int where
  "THREAD_PRIORITY_TIME_CRITICAL = 15"

text \<open>
  \<^verbatim>\<open>Process::inject\<close>, process.cpp lines 90 to 126: the check after the remote thread
  has ended. When the module is not found and the exit code is not 0, no branch throws
  and the function returns.
\<close>

definition inject_verify :: "'s env \<Rightarrow> Process \<Rightarrow> Library \<Rightarrow> bool \<Rightarrow> dword \<Rightarrow> 's world \<Rightarrow> (error + unit) \<times> 's world" where
  "inject_verify env self lib verbose exitCode w =
     (case os_call (ModuleInjectedW env (proc_handle self) (lib_ntFilename lib))
             (Ev_ModuleInjectedW (proc_handle self) (lib_ntFilename lib)) w of
        (lpInjectedModule, w1) \<Rightarrow>
          if lpInjectedModule \<noteq> 0 then
            (case os_call (ReadProcessMemory env (proc_handle self) lpInjectedModule sizeof_IMAGE_DOS_HEADER)
                    (\<lambda>(ok, n, hdr). Ev_ReadProcessMemory (proc_handle self) lpInjectedModule
                                       sizeof_IMAGE_DOS_HEADER ok n) w1 of
               ((ok, NumBytesRead, dos_header), w2) \<Rightarrow>
                 if \<not> ok \<or> NumBytesRead \<noteq> sizeof_IMAGE_DOS_HEADER then
                   (Inl (ex_injection, [e_text ''could not read memory in remote process'']), w2)
                 else
                   (case os_call (ReadProcessMemory env (proc_handle self)
                                    (lpInjectedModule + scast (e_lfanew dos_header)) sizeof_IMAGE_NT_HEADERS)
                           (\<lambda>(ok, n, hdr). Ev_ReadProcessMemory (proc_handle self)
                                              (lpInjectedModule + scast (e_lfanew dos_header))
                                              sizeof_IMAGE_NT_HEADERS ok n) w2 of
                      ((ok', NumBytesRead', nt_header), w3) \<Rightarrow>
                        if \<not> ok' \<or> NumBytesRead' \<noteq> sizeof_IMAGE_NT_HEADERS then
                          (Inl (ex_injection, [e_text ''could not read memory in remote process'']), w3)
                        else if verbose then
                          (Inr (), (fst w3, snd w3 @
                             [Ev_wprintf (lib_ntFilename lib) (proc_id self) lpInjectedModule
                                (lpInjectedModule + ucast (AddressOfEntryPoint nt_header))
                                (SizeOfImage nt_header) (CheckSum nt_header) exitCode]))
                        else (Inr (), w3)))
          else if exitCode = 0 then
            (Inl (ex_injection, [e_text ''unknown error (LoadLibraryW)'']), w1)
          else (Inr (), w1))"

text \<open>
  \<^verbatim>\<open>Process::inject\<close>, process.cpp lines 73 to 88: what runs while the
  \<^verbatim>\<open>shared_ptr\<close> \<^verbatim>\<open>lpLibFileRemote\<close> is alive, up to the wait for the remote thread.
  What the destructor of \<^verbatim>\<open>loadLibraryThread\<close> does with the thread handle is code of
  \<^verbatim>\<open>Thread\<close>, outside the two source files, and is left out.
\<close>

definition inject_remote :: "'s env \<Rightarrow> Process \<Rightarrow> Library \<Rightarrow> bool \<Rightarrow> addr \<Rightarrow> addr \<Rightarrow> 's world \<Rightarrow> (error + unit) \<times> 's world" where
  "inject_remote env self lib verbose loadLibrary lpLibFileRemote w =
     (if lpLibFileRemote = 0 then
        (Inl (ex_injection, [e_text ''could not allocate memory in remote process'']), w)
      else
        (case os_call (WriteProcessMemory env (proc_handle self) lpLibFileRemote (lib_path lib) (LibPathLen lib))
                (\<lambda>(ok, n). Ev_WriteProcessMemory (proc_handle self) lpLibFileRemote (lib_path lib)
                              (LibPathLen lib) ok n) w of
           ((ok, NumBytesWritten), w1) \<Rightarrow>
             if \<not> ok \<or> NumBytesWritten \<noteq> LibPathLen lib then
               (Inl (ex_injection, [e_text ''could not write to memory in remote process'']), w1)
             else
               (case os_call (FlushInstructionCache env (proc_handle self) lpLibFileRemote (LibPathLen lib))
                       (Ev_FlushInstructionCache (proc_handle self) lpLibFileRemote (LibPathLen lib)) w1 of
                  (flushed, w2) \<Rightarrow>
                    if \<not> flushed then
                      (Inl (ex_injection, [e_text ''could not flush instruction cache'']), w2)
                    else
                      (case os_call (createRemoteThread env self loadLibrary lpLibFileRemote)
                              (Ev_createRemoteThread self loadLibrary lpLibFileRemote) w2 of
                         (Inl e, w3) \<Rightarrow> (Inl e, w3)
                       | (Inr loadLibraryThread, w3) \<Rightarrow>
                           (case os_call (setPriority env loadLibraryThread THREAD_PRIORITY_TIME_CRITICAL)
                                   (Ev_setPriority loadLibraryThread THREAD_PRIORITY_TIME_CRITICAL) w3 of
                              (Inl e, w4) \<Rightarrow> (Inl e, w4)
                            | (Inr _, w4) \<Rightarrow>
                                (case os_call (hideFromDebugger env loadLibraryThread)
                                        (Ev_hideFromDebugger loadLibraryThread) w4 of
                                   (Inl e, w5) \<Rightarrow> (Inl e, w5)
                                 | (Inr _, w5) \<Rightarrow>
                                     (case os_call (waitForTermination env loadLibraryThread)
                                             (Ev_waitForTermination loadLibraryThread) w5 of
                                        (Inl e, w6) \<Rightarrow> (Inl e, w6)
                                      | (Inr exitCode, w6) \<Rightarrow>
                                          inject_verify env self lib verbose exitCode w6)))))))"

text \<open>
  \<^verbatim>\<open>Process::inject\<close>, process.cpp lines 53 to 126. \<^verbatim>\<open>kernel32dll\<close> is
  \<^verbatim>\<open>Module("kernel32")\<close>, a module of the current process. The \<^verbatim>\<open>shared_ptr\<close> is
  made from the result of \<^verbatim>\<open>VirtualAllocEx\<close> and the deleter
  \<^verbatim>\<open>bind(VirtualFreeEx, handle(), _1, 0, MEM_RELEASE)\<close> before the null test of line 73;
  a \<^verbatim>\<open>shared_ptr\<close> made from a pointer and a deleter owns the pointer also when it is
  null, and calls the deleter on it when it goes out of scope.
\<close>

definition inject :: "'s env \<Rightarrow> Process \<Rightarrow> Library \<Rightarrow> bool \<Rightarrow> 's world \<Rightarrow> (error + unit) \<times> 's world" where
  "inject env self lib verbose w =
     (case Module_named env (widen ''kernel32'') w of
        (Inl e, w1) \<Rightarrow> (Inl e, w1)
      | (Inr kernel32dll, w1) \<Rightarrow>
          (case getProcAddress env kernel32dll ''LoadLibraryW'' True w1 of
             (Inl e, w2) \<Rightarrow> (Inl e, w2)
           | (Inr loadLibrary, w2) \<Rightarrow>
               (case os_call (ModuleInjectedW env (proc_handle self) (lib_ntFilename lib))
                       (Ev_ModuleInjectedW (proc_handle self) (lib_ntFilename lib)) w2 of
                  (found, w3) \<Rightarrow>
                    if found \<noteq> 0 then
                      (Inl (ex_injection,
                            [e_text ''module already in process'', e_module (lib_path lib),
                             e_pid (proc_id self)]), w3)
                    else
                      (case os_call (VirtualAllocEx env (proc_handle self) (LibPathLen lib))
                              (Ev_VirtualAllocEx (proc_handle self) (LibPathLen lib)) w3 of
                         (lpLibFileRemote, w4) \<Rightarrow>
                           scoped
                             (os_call (VirtualFreeEx env (proc_handle self) lpLibFileRemote)
                                (\<lambda>_. Ev_VirtualFreeEx (proc_handle self) lpLibFileRemote))
                             (inject_remote env self lib verbose loadLibrary lpLibFileRemote) w4))))"

text \<open>\<^verbatim>\<open>Process::is64bit\<close>, process.cpp lines 128 to 156.\<close>

definition PROCESSOR_ARCHITECTURE_AMD64 :: "16 word" where
  "PROCESSOR_ARCHITECTURE_AMD64 = 9"

definition PROCESSOR_ARCHITECTURE_INTEL :: "16 word" where
  "PROCESSOR_ARCHITECTURE_INTEL = 0"

definition is64bit :: "'s env \<Rightarrow> Process \<Rightarrow> 's world \<Rightarrow> (error + bool) \<times> 's world" where
  "is64bit env self w =
     (case os_call (MyGetSystemInfo env) Ev_MyGetSystemInfo w of
        (wProcessorArchitecture, w1) \<Rightarrow>
          if wProcessorArchitecture = PROCESSOR_ARCHITECTURE_AMD64 then
            (case Module_named env (widen ''kernel32'') w1 of
               (Inl e, w2) \<Rightarrow> (Inl e, w2)
             | (Inr kernel32dll, w2) \<Rightarrow>
                 (case getProcAddress env kernel32dll ''IsWow64Process'' True w2 of
                    (Inl e, w3) \<Rightarrow> (Inl e, w3)
                  | (Inr IsWow64Process_ptr, w3) \<Rightarrow>
                      (case os_call (call_IsWow64Process env IsWow64Process_ptr (proc_handle self))
                              (\<lambda>(r, b). Ev_call_IsWow64Process IsWow64Process_ptr (proc_handle self) r b) w3 of
                         ((r, bIsWow64), w4) \<Rightarrow>
                           if r = 0 then (Inl (ex_injection, [e_text ''IsWow64Process failed'']), w4)
                           else (Inr (bIsWow64 = 0), w4))))
          else if wProcessorArchitecture = PROCESSOR_ARCHITECTURE_INTEL then (Inr False, w1)
          else
            (Inl (ex_injection,
                  [e_text ''failed to determine whether x86 or x64'', e_pid (proc_id self)]), w1))"

section \<open>A concrete environment\<close>

text \<open>
  An environment to run the functions on: every call succeeds. Its state counts the
  remote threads that have ended; the library is in the module list of the target once
  one has. An export lies at a fixed offset from the base of whatever copy of the image
  is asked. The variants below change one answer each.
\<close>

definition test_current :: Process where
  "test_current = \<lparr>proc_id = 4242, proc_handle = - 1\<rparr>"

definition test_target :: Process where
  "test_target = \<lparr>proc_id = 1234, proc_handle = 0x2C8\<rparr>"

definition test_library :: Library where
  "test_library = \<lparr>lib_path = [0x43, 0x3A, 0x2F, 0x61, 0x2E, 0x64, 0x6C, 0x6C],
                    lib_ntFilename = [0x2F, 0x61, 0x2E, 0x64, 0x6C, 0x6C]\<rparr>"

definition test_thread :: Thread where
  "test_thread = \<lparr>thread_id = 77, thread_handle = 0x310\<rparr>"

definition test_header :: image_header where
  "test_header = \<lparr>e_lfanew = 0x80, AddressOfEntryPoint = 0x1000, SizeOfImage = 0x8000, CheckSum = 0\<rparr>"

definition test_rva :: "string \<Rightarrow> addr" where
  "test_rva name =
     (if name = ''LoadLibraryW'' then 0x1F0A0
      else if name = ''IsWow64Process'' then 0x2B3C0
      else if name = ''NtSuspendProcess'' then 0x9D000
      else if name = ''NtResumeProcess'' then 0x9D020
      else 0)"

definition test_env :: "nat env" where
  "test_env =
     \<lparr>current = test_current,
      Process_default = \<lparr>proc_id = 0, proc_handle = 0\<rparr>,
      GetLastError = (\<lambda>s. 127),
      GetModuleHandleW = (\<lambda>name s.
        (if name = widen ''kernel32'' then 0x7FFA10000000
         else if name = widen ''ntdll'' then 0x7FFA20000000 else 0, s)),
      GetProcAddress = (\<lambda>h name s. (if test_rva name = 0 then 0 else h + test_rva name, s)),
      LoadLibraryExW = (\<lambda>p flags s. (0x10000000, s)),
      FreeLibrary = (\<lambda>h s. ((), s)),
      Module_path = (\<lambda>m s. (Inr [0x6B, 0x2E, 0x64, 0x6C, 0x6C], s)),
      ModuleInjectedW = (\<lambda>h name s. (if 0 < s then 0x6F000000 else 0, s)),
      VirtualAllocEx = (\<lambda>h n s. (0x30000, s)),
      VirtualFreeEx = (\<lambda>h a s. ((), s)),
      WriteProcessMemory = (\<lambda>h a src n s. ((True, n), s)),
      FlushInstructionCache = (\<lambda>h a n s. (True, s)),
      createRemoteThread = (\<lambda>p f a s. (Inr test_thread, s)),
      setPriority = (\<lambda>t p s. (Inr (), s)),
      hideFromDebugger = (\<lambda>t s. (Inr (), s)),
      waitForTermination = (\<lambda>t s. (Inr 0x6F000000, Suc s)),
      ReadProcessMemory = (\<lambda>h a n s. ((True, n, test_header), s)),
      call_NTAPI = (\<lambda>f h s. (0, s)),
      call_IsWow64Process = (\<lambda>f h s. ((1, 0), s)),
      MyGetSystemInfo = (\<lambda>s. (PROCESSOR_ARCHITECTURE_AMD64, s))\<rparr>"

definition test_env_present :: "nat env" where
  "test_env_present = test_env\<lparr>ModuleInjectedW := (\<lambda>h name s. (0x6F000000, s))\<rparr>"

definition test_env_unseen :: "nat env" where
  "test_env_unseen =
     test_env\<lparr>ModuleInjectedW := (\<lambda>h name s. (0, s)),
              waitForTermination := (\<lambda>t s. (Inr 1, Suc s))\<rparr>"

definition test_env_failed_load :: "nat env" where
  "test_env_failed_load =
     test_env\<lparr>ModuleInjectedW := (\<lambda>h name s. (0, s)),
              waitForTermination := (\<lambda>t s. (Inr 0, Suc s))\<rparr>"

definition test_env_no_memory :: "nat env" where
  "test_env_no_memory = test_env\<lparr>VirtualAllocEx := (\<lambda>h n s. (0, s))\<rparr>"

definition test_env_short_write :: "nat env" where
  "test_env_short_write = test_env\<lparr>WriteProcessMemory := (\<lambda>h a src n s. ((True, n - 2), s))\<rparr>"

definition test_env_denied :: "nat env" where
  "test_env_denied = test_env\<lparr>call_NTAPI := (\<lambda>f h s. (0xC0000022, s))\<rparr>"

definition test_env_x86 :: "nat env" where
  "test_env_x86 = test_env\<lparr>MyGetSystemInfo := (\<lambda>s. (PROCESSOR_ARCHITECTURE_INTEL, s))\<rparr>"

definition test_env_arm :: "nat env" where
  "test_env_arm = test_env\<lparr>MyGetSystemInfo := (\<lambda>s. (5, s))\<rparr>"

definition test_env_wow64 :: "nat env" where
  "test_env_wow64 = test_env\<lparr>call_IsWow64Process := (\<lambda>f h s. ((1, 1), s))\<rparr>"

definition test_kernel32 :: Module where
  "test_kernel32 = \<lparr>mod_handle = 0x7FFA10000000, mod_process = test_current, mod_FreeLibrary = False\<rparr>"

definition test_kernel32_remote :: Module where
  "test_kernel32_remote = test_kernel32\<lparr>mod_process := test_target\<rparr>"

definition test_ModuleKernel32 :: ModuleKernel32 where
  "test_ModuleKernel32 =
     \<lparr>k32_module = test_kernel32, isWow64Process_fn = 0x7FFA1002B3C0, getNativeSystemInfo_fn = 0\<rparr>"

section \<open>Reading a run\<close>

text \<open>
  The calls of a run, and what the claims count in them: the deallocation requests
  (\<^verbatim>\<open>VirtualFreeEx\<close>, with the process handle and the pointer) and the allocation calls
  (\<^verbatim>\<open>VirtualAllocEx\<close>, with the process handle and the pointer returned). An allocation
  is successful when the pointer returned is not null.
\<close>

definition trace_of :: "'a \<times> 's world \<Rightarrow> event list" where
  "trace_of r = snd (snd r)"

fun freed :: "event \<Rightarrow> (addr \<times> addr) list" where
  "freed (Ev_VirtualFreeEx h a) = [(h, a)]"
| "freed _ = []"

fun allocated :: "event \<Rightarrow> (addr \<times> addr) list" where
  "allocated (Ev_VirtualAllocEx h n a) = [(h, a)]"
| "allocated _ = []"

definition deallocations :: "event list \<Rightarrow> (addr \<times> addr) list" where
  "deallocations t = concat (map freed t)"

definition allocations :: "event list \<Rightarrow> (addr \<times> addr) list" where
  "allocations t = concat (map allocated t)"

definition successful :: "addr \<times> addr \<Rightarrow> bool" where
  "successful x = (snd x \<noteq> 0)"

definition successful_allocations :: "event list \<Rightarrow> (addr \<times> addr) list" where
  "successful_allocations t = filter successful (allocations t)"

section \<open>Paths of the functions\<close>

text \<open>
  A module of the current process takes the second branch of \<^verbatim>\<open>getProcAddress\<close>: the
  export table of the module itself is asked.
\<close>

declare getProcAddress.simps [simp del]


lemma getProcAddress_current:
  "mod_process m = current env \<Longrightarrow>
   getProcAddress env m procName throwing w =
     (case os_call (GetProcAddress env (mod_handle m) procName)
             (Ev_GetProcAddress (mod_handle m) procName) w of
        (procAddress, w1) \<Rightarrow>
          if procAddress = 0 then
            (if \<not> throwing then (Inr 0, w1)
             else (Inl (ex_injection,
                        [e_api_function ''GetProcAddress'',
                         e_text (''could not get the address of '' @ quoted procName),
                         e_last_error (GetLastError env (fst w1))]), w1))
          else (Inr procAddress, w1))"
  by (subst getProcAddress.simps) (simp add: Process_neq_def)

text \<open>
  Every run of the three parts of \<^verbatim>\<open>Process::inject\<close> takes one of finitely many
  paths; on each the outcome and the calls made are explicit.
\<close>

lemma inject_verify_paths [case_names absent dos_unread nt_unread present]:
  obtains
    s1 where
      "inject_verify env self lib verbose exitCode (s, t) =
         (if exitCode = 0 then Inl (ex_injection, [e_text ''unknown error (LoadLibraryW)''])
          else Inr (),
          (s1, t @ [Ev_ModuleInjectedW (proc_handle self) (lib_ntFilename lib) 0]))"
  | b s2 ok n where "b \<noteq> 0" and "\<not> ok \<or> n \<noteq> sizeof_IMAGE_DOS_HEADER" and
      "inject_verify env self lib verbose exitCode (s, t) =
         (Inl (ex_injection, [e_text ''could not read memory in remote process'']),
          (s2, t @ [Ev_ModuleInjectedW (proc_handle self) (lib_ntFilename lib) b,
                    Ev_ReadProcessMemory (proc_handle self) b sizeof_IMAGE_DOS_HEADER ok n]))"
  | b s3 and dos :: image_header and ok n where "b \<noteq> 0" and "\<not> ok \<or> n \<noteq> sizeof_IMAGE_NT_HEADERS" and
      "inject_verify env self lib verbose exitCode (s, t) =
         (Inl (ex_injection, [e_text ''could not read memory in remote process'']),
          (s3, t @ [Ev_ModuleInjectedW (proc_handle self) (lib_ntFilename lib) b,
                    Ev_ReadProcessMemory (proc_handle self) b sizeof_IMAGE_DOS_HEADER True
                      sizeof_IMAGE_DOS_HEADER,
                    Ev_ReadProcessMemory (proc_handle self) (b + scast (e_lfanew dos))
                      sizeof_IMAGE_NT_HEADERS ok n]))"
  | b s3 and dos :: image_header and nt :: image_header where "b \<noteq> 0" and
      "inject_verify env self lib verbose exitCode (s, t) =
         (Inr (),
          (s3, t @ [Ev_ModuleInjectedW (proc_handle self) (lib_ntFilename lib) b,
                    Ev_ReadProcessMemory (proc_handle self) b sizeof_IMAGE_DOS_HEADER True
                      sizeof_IMAGE_DOS_HEADER,
                    Ev_ReadProcessMemory (proc_handle self) (b + scast (e_lfanew dos))
                      sizeof_IMAGE_NT_HEADERS True sizeof_IMAGE_NT_HEADERS]
                 @ (if verbose then
                      [Ev_wprintf (lib_ntFilename lib) (proc_id self) b
                         (b + ucast (AddressOfEntryPoint nt)) (SizeOfImage nt) (CheckSum nt)
                         exitCode]
                    else [])))"
proof -
  obtain b s1 where c1: "ModuleInjectedW env (proc_handle self) (lib_ntFilename lib) s = (b, s1)"
    by (cases "ModuleInjectedW env (proc_handle self) (lib_ntFilename lib) s")
  obtain ok n dos s2 where
    c2: "ReadProcessMemory env (proc_handle self) b sizeof_IMAGE_DOS_HEADER s1 = ((ok, n, dos), s2)"
    by (metis prod.exhaust)
  obtain ok' n' nt s3 where
    c3: "ReadProcessMemory env (proc_handle self) (b + scast (e_lfanew dos))
           sizeof_IMAGE_NT_HEADERS s2 = ((ok', n', nt), s3)"
    by (metis prod.exhaust)
  show thesis
  proof (cases "b = 0")
    case True
    with c1 show thesis
      by (intro that(1)[of s1]) (simp add: inject_verify_def os_call_def)
  next
    case b: False
    show thesis
    proof (cases "\<not> ok \<or> n \<noteq> sizeof_IMAGE_DOS_HEADER")
      case True
      with b c1 c2 show thesis
        by (intro that(2)[of b ok n s2]) (auto simp add: inject_verify_def os_call_def)
    next
      case dos_ok: False
      show thesis
      proof (cases "\<not> ok' \<or> n' \<noteq> sizeof_IMAGE_NT_HEADERS")
        case True
        with b dos_ok c1 c2 c3 show thesis
          by (intro that(3)[of b ok' n' s3 dos]) (auto simp add: inject_verify_def os_call_def)
      next
        case False
        with b dos_ok c1 c2 c3 show thesis
          by (intro that(4)[of b s3 dos nt]) (auto simp add: inject_verify_def os_call_def)
      qed
    qed
  qed
qed

lemma inject_remote_paths [case_names alloc_null write_failed flush_failed create_failed priority_failed hide_failed wait_failed waited]:
  obtains
    "a = 0" and
      "inject_remote env self lib verbose f a (s, t) =
         (Inl (ex_injection, [e_text ''could not allocate memory in remote process'']),
          (s, t))"
  |    ok n s1 where "a \<noteq> 0" and "\<not> ok \<or> n \<noteq> LibPathLen lib" and
      "inject_remote env self lib verbose f a (s, t) =
         (Inl (ex_injection, [e_text ''could not write to memory in remote process'']),
          (s1, t @ [Ev_WriteProcessMemory (proc_handle self) a (lib_path lib) (LibPathLen lib) ok n]))"
  |    s2 where "a \<noteq> 0" and
      "inject_remote env self lib verbose f a (s, t) =
         (Inl (ex_injection, [e_text ''could not flush instruction cache'']),
          (s2, t @ [Ev_WriteProcessMemory (proc_handle self) a (lib_path lib) (LibPathLen lib) True (LibPathLen lib),
                    Ev_FlushInstructionCache (proc_handle self) a (LibPathLen lib) False]))"
  |    e s3 where "a \<noteq> 0" and
      "inject_remote env self lib verbose f a (s, t) =
         (Inl e,
          (s3, t @ [Ev_WriteProcessMemory (proc_handle self) a (lib_path lib) (LibPathLen lib) True (LibPathLen lib),
                    Ev_FlushInstructionCache (proc_handle self) a (LibPathLen lib) True,
                    Ev_createRemoteThread self f a (Inl e)]))"
  |    th e s4 where "a \<noteq> 0" and
      "inject_remote env self lib verbose f a (s, t) =
         (Inl e,
          (s4, t @ [Ev_WriteProcessMemory (proc_handle self) a (lib_path lib) (LibPathLen lib) True (LibPathLen lib),
                    Ev_FlushInstructionCache (proc_handle self) a (LibPathLen lib) True,
                    Ev_createRemoteThread self f a (Inr th),
                    Ev_setPriority th THREAD_PRIORITY_TIME_CRITICAL (Inl e)]))"
  |    th e s5 where "a \<noteq> 0" and
      "inject_remote env self lib verbose f a (s, t) =
         (Inl e,
          (s5, t @ [Ev_WriteProcessMemory (proc_handle self) a (lib_path lib) (LibPathLen lib) True (LibPathLen lib),
                    Ev_FlushInstructionCache (proc_handle self) a (LibPathLen lib) True,
                    Ev_createRemoteThread self f a (Inr th),
                    Ev_setPriority th THREAD_PRIORITY_TIME_CRITICAL (Inr ()),
                    Ev_hideFromDebugger th (Inl e)]))"
  |    th e s6 where "a \<noteq> 0" and
      "inject_remote env self lib verbose f a (s, t) =
         (Inl e,
          (s6, t @ [Ev_WriteProcessMemory (proc_handle self) a (lib_path lib) (LibPathLen lib) True (LibPathLen lib),
                    Ev_FlushInstructionCache (proc_handle self) a (LibPathLen lib) True,
                    Ev_createRemoteThread self f a (Inr th),
                    Ev_setPriority th THREAD_PRIORITY_TIME_CRITICAL (Inr ()),
                    Ev_hideFromDebugger th (Inr ()),
                    Ev_waitForTermination th (Inl e)]))"
  |    th exitCode s6 where "a \<noteq> 0" and
      "inject_remote env self lib verbose f a (s, t) =
         inject_verify env self lib verbose exitCode
           (s6, t @ [Ev_WriteProcessMemory (proc_handle self) a (lib_path lib) (LibPathLen lib) True (LibPathLen lib),
                  Ev_FlushInstructionCache (proc_handle self) a (LibPathLen lib) True,
                  Ev_createRemoteThread self f a (Inr th),
                  Ev_setPriority th THREAD_PRIORITY_TIME_CRITICAL (Inr ()),
                  Ev_hideFromDebugger th (Inr ()),
                  Ev_waitForTermination th (Inr exitCode)])"
proof -
  obtain ok n s1 where
    c1: "WriteProcessMemory env (proc_handle self) a (lib_path lib) (LibPathLen lib) s = ((ok, n), s1)"
    by (metis surj_pair)
  obtain fl s2 where
    c2: "FlushInstructionCache env (proc_handle self) a (LibPathLen lib) s1 = (fl, s2)"
    by (metis surj_pair)
  obtain r3 s3 where c3: "createRemoteThread env self f a s2 = (r3, s3)"
    by (metis surj_pair)
  show thesis
  proof (cases "a = 0")
    case True
    then show thesis
      by (intro that(1)) (simp_all add: inject_remote_def)
  next
    case a: False
    show thesis
    proof (cases "\<not> ok \<or> n \<noteq> LibPathLen lib")
      case True
      with a c1 show thesis
        by (intro that(2)[where ok = ok and n = n and ?s1.0 = s1])
           (auto simp add: inject_remote_def os_call_def)
    next
      case w: False
      show thesis
      proof (cases fl)
        case False
        with a w c1 c2 show thesis
          by (intro that(3)[where ?s2.0 = s2]) (auto simp add: inject_remote_def os_call_def)
      next
        case fl: True
        show thesis
        proof (cases r3)
          case (Inl e)
          with a w fl c1 c2 c3 show thesis
            by (intro that(4)[where e = e and ?s3.0 = s3])
               (auto simp add: inject_remote_def os_call_def)
        next
          case (Inr th)
          note th = this
          obtain r4 s4 where c4: "setPriority env th THREAD_PRIORITY_TIME_CRITICAL s3 = (r4, s4)"
            by (metis surj_pair)
          obtain r5 s5 where c5: "hideFromDebugger env th s4 = (r5, s5)"
            by (metis surj_pair)
          obtain r6 s6 where c6: "waitForTermination env th s5 = (r6, s6)"
            by (metis surj_pair)
          show thesis
          proof (cases r4)
            case (Inl e)
            with a w fl th c1 c2 c3 c4 show thesis
              by (intro that(5)[where th = th and e = e and ?s4.0 = s4])
                 (auto simp add: inject_remote_def os_call_def)
          next
            case p: (Inr u4)
            show thesis
            proof (cases r5)
              case (Inl e)
              with a w fl th p c1 c2 c3 c4 c5 show thesis
                by (intro that(6)[where th = th and e = e and ?s5.0 = s5])
                   (auto simp add: inject_remote_def os_call_def)
            next
              case hd: (Inr u5)
              show thesis
              proof (cases r6)
                case (Inl e)
                with a w fl th p hd c1 c2 c3 c4 c5 c6 show thesis
                  by (intro that(7)[where th = th and e = e and ?s6.0 = s6])
                     (auto simp add: inject_remote_def os_call_def)
              next
                case (Inr exitCode)
                with a w fl th p hd c1 c2 c3 c4 c5 c6 show thesis
                  by (intro that(8)[where th = th and exitCode = exitCode and ?s6.0 = s6])
                     (auto simp add: inject_remote_def os_call_def)
              qed
            qed
          qed
        qed
      qed
    qed
  qed
qed


lemma inject_paths [case_names no_kernel32 no_export already_injected alloc_null write_failed flush_failed create_failed priority_failed hide_failed wait_failed absent dos_unread nt_unread present]:
  obtains
    s1 where
      "inject env self lib verbose (s, []) =
         (Inl (ex_get_module_handle,
               [e_api_function ''GetModuleHandle'',
                e_text (''could not get handle to module '' @ quoted (path_string (widen ''kernel32''))),
                e_last_error (GetLastError env s1)]),
          (s1, [Ev_GetModuleHandleW (widen ''kernel32'') 0]))"
  |    k s2 where "k \<noteq> 0" and
      "inject env self lib verbose (s, []) =
         (Inl (ex_injection,
               [e_api_function ''GetProcAddress'',
                e_text (''could not get the address of '' @ quoted ''LoadLibraryW''),
                e_last_error (GetLastError env s2)]),
          (s2, [Ev_GetModuleHandleW (widen ''kernel32'') k,
                Ev_GetProcAddress k ''LoadLibraryW'' 0]))"
  |    k f b s3 where "k \<noteq> 0" and "f \<noteq> 0" and "b \<noteq> 0" and
      "inject env self lib verbose (s, []) =
         (Inl (ex_injection,
               [e_text ''module already in process'', e_module (lib_path lib),
                e_pid (proc_id self)]),
          (s3, [Ev_GetModuleHandleW (widen ''kernel32'') k,
                 Ev_GetProcAddress k ''LoadLibraryW'' f,
                 Ev_ModuleInjectedW (proc_handle self) (lib_ntFilename lib) b]))"
  |    k f a s' where "k \<noteq> 0" and "f \<noteq> 0" and "a = 0" and
      "inject env self lib verbose (s, []) =
         (Inl (ex_injection, [e_text ''could not allocate memory in remote process'']),
          (s', [Ev_GetModuleHandleW (widen ''kernel32'') k,
                 Ev_GetProcAddress k ''LoadLibraryW'' f,
                 Ev_ModuleInjectedW (proc_handle self) (lib_ntFilename lib) 0,
                 Ev_VirtualAllocEx (proc_handle self) (LibPathLen lib) a,
                 Ev_VirtualFreeEx (proc_handle self) a]))"
  |    k f a ok n s' where "k \<noteq> 0" and "f \<noteq> 0" and "a \<noteq> 0" and "\<not> ok \<or> n \<noteq> LibPathLen lib" and
      "inject env self lib verbose (s, []) =
         (Inl (ex_injection, [e_text ''could not write to memory in remote process'']),
          (s', [Ev_GetModuleHandleW (widen ''kernel32'') k,
                 Ev_GetProcAddress k ''LoadLibraryW'' f,
                 Ev_ModuleInjectedW (proc_handle self) (lib_ntFilename lib) 0,
                 Ev_VirtualAllocEx (proc_handle self) (LibPathLen lib) a,
                 Ev_WriteProcessMemory (proc_handle self) a (lib_path lib) (LibPathLen lib) ok n,
                 Ev_VirtualFreeEx (proc_handle self) a]))"
  |    k f a s' where "k \<noteq> 0" and "f \<noteq> 0" and "a \<noteq> 0" and
      "inject env self lib verbose (s, []) =
         (Inl (ex_injection, [e_text ''could not flush instruction cache'']),
          (s', [Ev_GetModuleHandleW (widen ''kernel32'') k,
                 Ev_GetProcAddress k ''LoadLibraryW'' f,
                 Ev_ModuleInjectedW (proc_handle self) (lib_ntFilename lib) 0,
                 Ev_VirtualAllocEx (proc_handle self) (LibPathLen lib) a,
                 Ev_WriteProcessMemory (proc_handle self) a (lib_path lib) (LibPathLen lib) True (LibPathLen lib),
                 Ev_FlushInstructionCache (proc_handle self) a (LibPathLen lib) False,
                 Ev_VirtualFreeEx (proc_handle self) a]))"
  |    k f a e s' where "k \<noteq> 0" and "f \<noteq> 0" and "a \<noteq> 0" and
      "inject env self lib verbose (s, []) =
         (Inl e,
          (s', [Ev_GetModuleHandleW (widen ''kernel32'') k,
                 Ev_GetProcAddress k ''LoadLibraryW'' f,
                 Ev_ModuleInjectedW (proc_handle self) (lib_ntFilename lib) 0,
                 Ev_VirtualAllocEx (proc_handle self) (LibPathLen lib) a,
                 Ev_WriteProcessMemory (proc_handle self) a (lib_path lib) (LibPathLen lib) True (LibPathLen lib),
                 Ev_FlushInstructionCache (proc_handle self) a (LibPathLen lib) True,
                 Ev_createRemoteThread self f a (Inl e),
                 Ev_VirtualFreeEx (proc_handle self) a]))"
  |    k f a th e s' where "k \<noteq> 0" and "f \<noteq> 0" and "a \<noteq> 0" and
      "inject env self lib verbose (s, []) =
         (Inl e,
          (s', [Ev_GetModuleHandleW (widen ''kernel32'') k,
                 Ev_GetProcAddress k ''LoadLibraryW'' f,
                 Ev_ModuleInjectedW (proc_handle self) (lib_ntFilename lib) 0,
                 Ev_VirtualAllocEx (proc_handle self) (LibPathLen lib) a,
                 Ev_WriteProcessMemory (proc_handle self) a (lib_path lib) (LibPathLen lib) True (LibPathLen lib),
                 Ev_FlushInstructionCache (proc_handle self) a (LibPathLen lib) True,
                 Ev_createRemoteThread self f a (Inr th),
                 Ev_setPriority th THREAD_PRIORITY_TIME_CRITICAL (Inl e),
                 Ev_VirtualFreeEx (proc_handle self) a]))"
  |    k f a th e s' where "k \<noteq> 0" and "f \<noteq> 0" and "a \<noteq> 0" and
      "inject env self lib verbose (s, []) =
         (Inl e,
          (s', [Ev_GetModuleHandleW (widen ''kernel32'') k,
                 Ev_GetProcAddress k ''LoadLibraryW'' f,
                 Ev_ModuleInjectedW (proc_handle self) (lib_ntFilename lib) 0,
                 Ev_VirtualAllocEx (proc_handle self) (LibPathLen lib) a,
                 Ev_WriteProcessMemory (proc_handle self) a (lib_path lib) (LibPathLen lib) True (LibPathLen lib),
                 Ev_FlushInstructionCache (proc_handle self) a (LibPathLen lib) True,
                 Ev_createRemoteThread self f a (Inr th),
                 Ev_setPriority th THREAD_PRIORITY_TIME_CRITICAL (Inr ()),
                 Ev_hideFromDebugger th (Inl e),
                 Ev_VirtualFreeEx (proc_handle self) a]))"
  |    k f a th e s' where "k \<noteq> 0" and "f \<noteq> 0" and "a \<noteq> 0" and
      "inject env self lib verbose (s, []) =
         (Inl e,
          (s', [Ev_GetModuleHandleW (widen ''kernel32'') k,
                 Ev_GetProcAddress k ''LoadLibraryW'' f,
                 Ev_ModuleInjectedW (proc_handle self) (lib_ntFilename lib) 0,
                 Ev_VirtualAllocEx (proc_handle self) (LibPathLen lib) a,
                 Ev_WriteProcessMemory (proc_handle self) a (lib_path lib) (LibPathLen lib) True (LibPathLen lib),
                 Ev_FlushInstructionCache (proc_handle self) a (LibPathLen lib) True,
                 Ev_createRemoteThread self f a (Inr th),
                 Ev_setPriority th THREAD_PRIORITY_TIME_CRITICAL (Inr ()),
                 Ev_hideFromDebugger th (Inr ()),
                 Ev_waitForTermination th (Inl e),
                 Ev_VirtualFreeEx (proc_handle self) a]))"
  |    k f a th exitCode s' where "k \<noteq> 0" and "f \<noteq> 0" and "a \<noteq> 0" and
      "inject env self lib verbose (s, []) =
         ((if exitCode = 0 then Inl (ex_injection, [e_text ''unknown error (LoadLibraryW)'']) else Inr ()),
          (s', [Ev_GetModuleHandleW (widen ''kernel32'') k,
                 Ev_GetProcAddress k ''LoadLibraryW'' f,
                 Ev_ModuleInjectedW (proc_handle self) (lib_ntFilename lib) 0,
                 Ev_VirtualAllocEx (proc_handle self) (LibPathLen lib) a,
                 Ev_WriteProcessMemory (proc_handle self) a (lib_path lib) (LibPathLen lib) True (LibPathLen lib),
                 Ev_FlushInstructionCache (proc_handle self) a (LibPathLen lib) True,
                 Ev_createRemoteThread self f a (Inr th),
                 Ev_setPriority th THREAD_PRIORITY_TIME_CRITICAL (Inr ()),
                 Ev_hideFromDebugger th (Inr ()),
                 Ev_waitForTermination th (Inr exitCode),
                 Ev_ModuleInjectedW (proc_handle self) (lib_ntFilename lib) 0,
                 Ev_VirtualFreeEx (proc_handle self) a]))"
  |    k f a th exitCode b ok n s' where "k \<noteq> 0" and "f \<noteq> 0" and "a \<noteq> 0" and "b \<noteq> 0" and "\<not> ok \<or> n \<noteq> sizeof_IMAGE_DOS_HEADER" and
      "inject env self lib verbose (s, []) =
         (Inl (ex_injection, [e_text ''could not read memory in remote process'']),
          (s', [Ev_GetModuleHandleW (widen ''kernel32'') k,
                 Ev_GetProcAddress k ''LoadLibraryW'' f,
                 Ev_ModuleInjectedW (proc_handle self) (lib_ntFilename lib) 0,
                 Ev_VirtualAllocEx (proc_handle self) (LibPathLen lib) a,
                 Ev_WriteProcessMemory (proc_handle self) a (lib_path lib) (LibPathLen lib) True (LibPathLen lib),
                 Ev_FlushInstructionCache (proc_handle self) a (LibPathLen lib) True,
                 Ev_createRemoteThread self f a (Inr th),
                 Ev_setPriority th THREAD_PRIORITY_TIME_CRITICAL (Inr ()),
                 Ev_hideFromDebugger th (Inr ()),
                 Ev_waitForTermination th (Inr exitCode),
                 Ev_ModuleInjectedW (proc_handle self) (lib_ntFilename lib) b,
                 Ev_ReadProcessMemory (proc_handle self) b sizeof_IMAGE_DOS_HEADER ok n,
                 Ev_VirtualFreeEx (proc_handle self) a]))"
  |    k f a th exitCode b and dos :: image_header and ok n and s' where "k \<noteq> 0" and "f \<noteq> 0" and "a \<noteq> 0" and "b \<noteq> 0" and "\<not> ok \<or> n \<noteq> sizeof_IMAGE_NT_HEADERS" and
      "inject env self lib verbose (s, []) =
         (Inl (ex_injection, [e_text ''could not read memory in remote process'']),
          (s', [Ev_GetModuleHandleW (widen ''kernel32'') k,
                 Ev_GetProcAddress k ''LoadLibraryW'' f,
                 Ev_ModuleInjectedW (proc_handle self) (lib_ntFilename lib) 0,
                 Ev_VirtualAllocEx (proc_handle self) (LibPathLen lib) a,
                 Ev_WriteProcessMemory (proc_handle self) a (lib_path lib) (LibPathLen lib) True (LibPathLen lib),
                 Ev_FlushInstructionCache (proc_handle self) a (LibPathLen lib) True,
                 Ev_createRemoteThread self f a (Inr th),
                 Ev_setPriority th THREAD_PRIORITY_TIME_CRITICAL (Inr ()),
                 Ev_hideFromDebugger th (Inr ()),
                 Ev_waitForTermination th (Inr exitCode),
                 Ev_ModuleInjectedW (proc_handle self) (lib_ntFilename lib) b,
                 Ev_ReadProcessMemory (proc_handle self) b sizeof_IMAGE_DOS_HEADER True sizeof_IMAGE_DOS_HEADER,
                 Ev_ReadProcessMemory (proc_handle self) (b + scast (e_lfanew dos)) sizeof_IMAGE_NT_HEADERS ok n,
                 Ev_VirtualFreeEx (proc_handle self) a]))"
  |    k f a th exitCode b and dos :: image_header and nt :: image_header and s' where "k \<noteq> 0" and "f \<noteq> 0" and "a \<noteq> 0" and "b \<noteq> 0" and
      "inject env self lib verbose (s, []) =
         (Inr (),
          (s', [Ev_GetModuleHandleW (widen ''kernel32'') k,
                 Ev_GetProcAddress k ''LoadLibraryW'' f,
                 Ev_ModuleInjectedW (proc_handle self) (lib_ntFilename lib) 0,
                 Ev_VirtualAllocEx (proc_handle self) (LibPathLen lib) a,
                 Ev_WriteProcessMemory (proc_handle self) a (lib_path lib) (LibPathLen lib) True (LibPathLen lib),
                 Ev_FlushInstructionCache (proc_handle self) a (LibPathLen lib) True,
                 Ev_createRemoteThread self f a (Inr th),
                 Ev_setPriority th THREAD_PRIORITY_TIME_CRITICAL (Inr ()),
                 Ev_hideFromDebugger th (Inr ()),
                 Ev_waitForTermination th (Inr exitCode),
                 Ev_ModuleInjectedW (proc_handle self) (lib_ntFilename lib) b,
                 Ev_ReadProcessMemory (proc_handle self) b sizeof_IMAGE_DOS_HEADER True sizeof_IMAGE_DOS_HEADER,
                 Ev_ReadProcessMemory (proc_handle self) (b + scast (e_lfanew dos)) sizeof_IMAGE_NT_HEADERS True sizeof_IMAGE_NT_HEADERS]
                @ (if verbose then
                     [Ev_wprintf (lib_ntFilename lib) (proc_id self) b (b + ucast (AddressOfEntryPoint nt)) (SizeOfImage nt) (CheckSum nt) exitCode]
                   else [])
                @ [Ev_VirtualFreeEx (proc_handle self) a]))"
proof -
  obtain k s1 where c1: "GetModuleHandleW env (widen ''kernel32'') s = (k, s1)"
    by (metis surj_pair)
  obtain f s2 where c2: "GetProcAddress env k ''LoadLibraryW'' s1 = (f, s2)"
    by (metis surj_pair)
  obtain b s3 where c3: "ModuleInjectedW env (proc_handle self) (lib_ntFilename lib) s2 = (b, s3)"
    by (metis surj_pair)
  obtain a s4 where c4: "VirtualAllocEx env (proc_handle self) (LibPathLen lib) s3 = (a, s4)"
    by (metis surj_pair)
  let ?t4 = "[Ev_GetModuleHandleW (widen ''kernel32'') k,
               Ev_GetProcAddress k ''LoadLibraryW'' f,
               Ev_ModuleInjectedW (proc_handle self) (lib_ntFilename lib) 0,
               Ev_VirtualAllocEx (proc_handle self) (LibPathLen lib) a]"
  let ?free = "\<lambda>s. snd (VirtualFreeEx env (proc_handle self) a s)"
  have scope: "inject env self lib verbose (s, []) = (r, (?free s', t' @ [Ev_VirtualFreeEx (proc_handle self) a]))"
    if "k \<noteq> 0" and "f \<noteq> 0" and "b = 0"
      and "inject_remote env self lib verbose f a (s4, ?t4) = (r, (s', t'))" for r s' t'
    using that c1 c2 c3 c4
    by (simp add: inject_def Module_named_def getProcAddress_current os_call_def scoped_def split_beta)
  show thesis
  proof (cases "k = 0")
    case True
    with c1 show thesis
      by (intro that(1)[where ?s1.0 = s1]) (simp add: inject_def Module_named_def os_call_def)
  next
    case k: False
    show thesis
    proof (cases "f = 0")
      case True
      with k c1 c2 show thesis
        by (intro that(2)[where k = k and ?s2.0 = s2])
           (simp_all add: inject_def Module_named_def getProcAddress_current os_call_def)
    next
      case f: False
      show thesis
      proof (cases "b = 0")
        case False
        with k f c1 c2 c3 show thesis
          by (intro that(3)[where k = k and f = f and b = b and ?s3.0 = s3])
             (simp_all add: inject_def Module_named_def getProcAddress_current os_call_def)
      next
        case b: True
        note sc = scope[OF k f b]
        show thesis
        proof (cases rule: inject_remote_paths[of a env self lib verbose f s4 ?t4])
          case alloc_null
          from alloc_null(1) sc[OF alloc_null(2)] k f show thesis
            by (intro that(4)[where k = k and f = f and a = a]) simp_all
        next
          case (write_failed ok n s1)
          from write_failed(1,2) sc[OF write_failed(3)] k f show thesis
            by (intro that(5)[where k = k and f = f and a = a and ok = ok and n = n]) simp_all
        next
          case (flush_failed s2)
          from flush_failed(1) sc[OF flush_failed(2)] k f show thesis
            by (intro that(6)[where k = k and f = f and a = a]) simp_all
        next
          case (create_failed e s3)
          from create_failed(1) sc[OF create_failed(2)] k f show thesis
            by (intro that(7)[where k = k and f = f and a = a and e = e]) simp_all
        next
          case (priority_failed th e s4)
          from priority_failed(1) sc[OF priority_failed(2)] k f show thesis
            by (intro that(8)[where k = k and f = f and a = a and th = th and e = e]) simp_all
        next
          case (hide_failed th e s5)
          from hide_failed(1) sc[OF hide_failed(2)] k f show thesis
            by (intro that(9)[where k = k and f = f and a = a and th = th and e = e]) simp_all
        next
          case (wait_failed th e s6)
          from wait_failed(1) sc[OF wait_failed(2)] k f show thesis
            by (intro that(10)[where k = k and f = f and a = a and th = th and e = e]) simp_all
        next
          case (waited th exitCode s6)
          note a = waited(1) and w = waited(2)
          show thesis
          proof (cases rule: inject_verify_paths[of env self lib verbose exitCode s6
                   "?t4 @ [Ev_WriteProcessMemory (proc_handle self) a (lib_path lib) (LibPathLen lib) True (LibPathLen lib),
                     Ev_FlushInstructionCache (proc_handle self) a (LibPathLen lib) True,
                     Ev_createRemoteThread self f a (Inr th),
                     Ev_setPriority th THREAD_PRIORITY_TIME_CRITICAL (Inr ()),
                     Ev_hideFromDebugger th (Inr ()),
                     Ev_waitForTermination th (Inr exitCode)]"])
            case (absent s7)
            from sc[OF w[unfolded absent]] k f a show thesis
              by (intro that(11)[where k = k and f = f and a = a and th = th
                    and exitCode = exitCode]) simp_all
          next
            case (dos_unread b' s8 ok n)
            from dos_unread(1,2) sc[OF w[unfolded dos_unread(3)]] k f a show thesis
              by (intro that(12)[where k = k and f = f and a = a and th = th
                    and exitCode = exitCode and b = b' and ok = ok and n = n]) simp_all
          next
            case (nt_unread b' s9 dos ok n)
            from nt_unread(1,2) sc[OF w[unfolded nt_unread(3)]] k f a show thesis
              by (intro that(13)[where k = k and f = f and a = a and th = th
                    and exitCode = exitCode and b = b' and dos = dos and ok = ok and n = n])
                 simp_all
          next
            case (present b' s9 dos nt)
            from present(1) sc[OF w[unfolded present(2)]] k f a show thesis
              by (intro that(14)[where k = k and f = f and a = a and th = th
                    and exitCode = exitCode and b = b' and dos = dos and nt = nt]) simp_all
          qed
        qed
      qed
    qed
  qed
qed

lemma Module_named_found:
  "GetModuleHandleW env name s = (h, s1) \<Longrightarrow> h \<noteq> 0 \<Longrightarrow>
   Module_named env name (s, t) =
     (Inr \<lparr>mod_handle = h, mod_process = current env, mod_FreeLibrary = False\<rparr>,
      (s1, t @ [Ev_GetModuleHandleW name h]))"
  by (simp add: Module_named_def os_call_def)

lemma getProcAddress_current_found:
  "mod_process m = current env \<Longrightarrow>
   GetProcAddress env (mod_handle m) procName s = (a, s1) \<Longrightarrow> a \<noteq> 0 \<Longrightarrow>
   getProcAddress env m procName throwing (s, t) =
     (Inr a, (s1, t @ [Ev_GetProcAddress (mod_handle m) procName a]))"
  by (simp add: getProcAddress_current os_call_def)

text \<open>Evaluation of the concrete environment.\<close>

lemmas test_defs =
  test_env_def test_env_present_def test_env_unseen_def
  test_env_failed_load_def test_env_no_memory_def test_env_short_write_def
  test_env_denied_def test_env_x86_def test_env_arm_def test_env_wow64_def
  test_current_def test_target_def test_library_def test_thread_def test_header_def
  test_rva_def test_kernel32_def test_kernel32_remote_def test_ModuleKernel32_def

lemmas run_defs =
  inject_def inject_remote_def inject_verify_def scoped_def os_call_def Module_named_def
  getProcAddress_current LibPathLen_def wcslen_def sizeof_wchar_t_def
  sizeof_IMAGE_DOS_HEADER_def sizeof_IMAGE_NT_HEADERS_def THREAD_PRIORITY_TIME_CRITICAL_def
  widen_def

section \<open>Claims\<close>

subsection \<open>C10: \<^verbatim>\<open>ModuleKernel32::isWow64Process\<close>\<close>

text \<open>
  C10. For every process, \<^verbatim>\<open>ModuleKernel32::isWow64Process\<close> makes one call of the bound
  \<^verbatim>\<open>IsWow64Process\<close> export on the handle of the process. When the call reports
  failure (returns 0) it throws an \<^verbatim>\<open>ex_injection\<close> that carries the name of the API, the
  process and the code of \<^verbatim>\<open>GetLastError\<close>; otherwise it returns the negation of the
  flag the call wrote: true exactly when the flag is 0, that is when the system reports
  that the process does not run under the 32-bit compatibility subsystem.
\<close>

theorem isWow64Process_negates:
  assumes "call_IsWow64Process env (isWow64Process_fn k) (proc_handle proc) s = ((ret, isWow64), s1)"
  shows "isWow64Process env k proc (s, t) =
           (if ret = 0 then
              Inl (ex_injection,
                   [e_api_function ''IsWow64Process'', e_process proc,
                    e_last_error (GetLastError env s1)])
            else Inr (isWow64 = 0),
            (s1, t @ [Ev_call_IsWow64Process (isWow64Process_fn k) (proc_handle proc) ret isWow64]))"
  using assms by (simp add: isWow64Process_def os_call_def)

text \<open>
  C10, at a concrete input: the system answers that the target runs under the
  compatibility subsystem (flag 1), and the function returns false.
\<close>

theorem isWow64Process_negates_witness:
  "call_IsWow64Process test_env_wow64 (isWow64Process_fn test_ModuleKernel32)
     (proc_handle test_target) 0 = ((1, 1), 0)
   \<and> isWow64Process test_env_wow64 test_ModuleKernel32 test_target (0, []) =
       (Inr False, (0, [Ev_call_IsWow64Process 0x7FFA1002B3C0 0x2C8 1 1]))"
proof -
  have call: "call_IsWow64Process test_env_wow64 (isWow64Process_fn test_ModuleKernel32)
     (proc_handle test_target) 0 = ((1, 1), 0)"
    by (simp add: test_defs)
  from isWow64Process_negates[OF call, where t = "[]"] call show ?thesis
    by (simp add: test_defs)
qed

subsection \<open>C7: \<^verbatim>\<open>Process::suspend\<close>\<close>

text \<open>
  C7. When \<^verbatim>\<open>ntdll\<close> is found in the current process and the export resolves,
  \<^verbatim>\<open>Process::suspend(true)\<close> calls the function at the address of \<^verbatim>\<open>NtSuspendProcess\<close>
  and \<^verbatim>\<open>Process::suspend(false)\<close> the one at the address of \<^verbatim>\<open>NtResumeProcess\<close>, on the
  handle of the process. In either direction, a negative status makes it throw
  \<^verbatim>\<open>ex_suspend_resume_process\<close> carrying exactly that status, and a non-negative status
  makes it return normally.
\<close>

theorem suspend_status:
  assumes "GetModuleHandleW env (widen ''ntdll'') s = (ntdll, s1)" and "ntdll \<noteq> 0"
    and "GetProcAddress env ntdll (if flag then ''NtSuspendProcess'' else ''NtResumeProcess'') s1 = (f, s2)"
    and "f \<noteq> 0"
    and "call_NTAPI env f (proc_handle self) s2 = (ntStatus, s3)"
  shows "suspend env self flag (s, []) =
           (if sint ntStatus < 0 then Inl (ex_suspend_resume_process, [e_nt_status ntStatus])
            else Inr (),
            (s3, [Ev_GetModuleHandleW (widen ''ntdll'') ntdll,
                  Ev_GetProcAddress ntdll (if flag then ''NtSuspendProcess'' else ''NtResumeProcess'') f,
                  Ev_call_NTAPI f (proc_handle self) ntStatus]))"
  using assms
  by (cases flag) (simp_all add: suspend_def Module_named_found getProcAddress_current_found
        os_call_def NT_SUCCESS_def not_le)

text \<open>
  C7, at concrete inputs: a suspend that the system refuses with the status
  \<^verbatim>\<open>0xC0000022\<close> throws with that status, and a resume that the system accepts returns.
\<close>

theorem suspend_status_witness:
  "suspend test_env_denied test_target True (0, []) =
     (Inl (ex_suspend_resume_process, [e_nt_status 0xC0000022]),
      (0, [Ev_GetModuleHandleW (widen ''ntdll'') 0x7FFA20000000,
           Ev_GetProcAddress 0x7FFA20000000 ''NtSuspendProcess'' 0x7FFA2009D000,
           Ev_call_NTAPI 0x7FFA2009D000 0x2C8 0xC0000022]))
   \<and> suspend test_env test_target False (0, []) =
     (Inr (),
      (0, [Ev_GetModuleHandleW (widen ''ntdll'') 0x7FFA20000000,
           Ev_GetProcAddress 0x7FFA20000000 ''NtResumeProcess'' 0x7FFA2009D020,
           Ev_call_NTAPI 0x7FFA2009D020 0x2C8 0]))"
proof -
  have m: "GetModuleHandleW test_env_denied (widen ''ntdll'') 0 = (0x7FFA20000000, 0)"
    and m': "GetModuleHandleW test_env (widen ''ntdll'') 0 = (0x7FFA20000000, 0)"
    by (simp_all add: test_defs widen_def)
  have p: "GetProcAddress test_env_denied 0x7FFA20000000
             (if True then ''NtSuspendProcess'' else ''NtResumeProcess'') 0 = (0x7FFA2009D000, 0)"
    and p': "GetProcAddress test_env 0x7FFA20000000
             (if False then ''NtSuspendProcess'' else ''NtResumeProcess'') 0 = (0x7FFA2009D020, 0)"
    by (simp_all add: test_defs)
  have c: "call_NTAPI test_env_denied 0x7FFA2009D000 (proc_handle test_target) 0 = (0xC0000022, 0)"
    and c': "call_NTAPI test_env 0x7FFA2009D020 (proc_handle test_target) 0 = (0, 0)"
    by (simp_all add: test_defs)
  from suspend_status[OF m _ p _ c] suspend_status[OF m' _ p' _ c'] show ?thesis
    by (simp add: test_defs)
qed

subsection \<open>C8: \<^verbatim>\<open>Process::is64bit\<close>\<close>

text \<open>
  C8. \<^verbatim>\<open>Process::is64bit\<close> reads the architecture of the host. On a 32-bit x86 host it
  returns false and makes no other call. On a host that is neither x86 nor x64 it throws
  (with the process id). On an x64 host, once \<^verbatim>\<open>IsWow64Process\<close> of \<^verbatim>\<open>kernel32\<close> is
  resolved, it asks whether this process runs under the 32-bit compatibility subsystem:
  it throws when the query fails, and otherwise returns the inversion of the answer
  (true iff the flag is 0).
\<close>

theorem is64bit_by_architecture:
  assumes "MyGetSystemInfo env s = (arch, s1)"
  shows "(arch = PROCESSOR_ARCHITECTURE_INTEL \<longrightarrow>
            is64bit env self (s, []) = (Inr False, (s1, [Ev_MyGetSystemInfo arch])))
       \<and> (arch \<noteq> PROCESSOR_ARCHITECTURE_AMD64 \<and> arch \<noteq> PROCESSOR_ARCHITECTURE_INTEL \<longrightarrow>
            is64bit env self (s, []) =
              (Inl (ex_injection,
                    [e_text ''failed to determine whether x86 or x64'', e_pid (proc_id self)]),
               (s1, [Ev_MyGetSystemInfo arch])))
       \<and> (arch = PROCESSOR_ARCHITECTURE_AMD64 \<longrightarrow>
            GetModuleHandleW env (widen ''kernel32'') s1 = (k, s2) \<longrightarrow> k \<noteq> 0 \<longrightarrow>
            GetProcAddress env k ''IsWow64Process'' s2 = (f, s3) \<longrightarrow> f \<noteq> 0 \<longrightarrow>
            call_IsWow64Process env f (proc_handle self) s3 = ((ret, bIsWow64), s4) \<longrightarrow>
            is64bit env self (s, []) =
              (if ret = 0 then Inl (ex_injection, [e_text ''IsWow64Process failed''])
               else Inr (bIsWow64 = 0),
               (s4, [Ev_MyGetSystemInfo arch,
                     Ev_GetModuleHandleW (widen ''kernel32'') k,
                     Ev_GetProcAddress k ''IsWow64Process'' f,
                     Ev_call_IsWow64Process f (proc_handle self) ret bIsWow64])))"
  using assms
  by (simp add: is64bit_def os_call_def Module_named_found getProcAddress_current_found
        PROCESSOR_ARCHITECTURE_AMD64_def PROCESSOR_ARCHITECTURE_INTEL_def)

text \<open>
  C8, at concrete inputs: an x64 host whose answer is "not under the compatibility
  subsystem" (true), an x86 host (false, one call), and an ARM host (the exception).
\<close>

theorem is64bit_by_architecture_witness:
  "is64bit test_env test_target (0, []) =
     (Inr True,
      (0, [Ev_MyGetSystemInfo PROCESSOR_ARCHITECTURE_AMD64,
           Ev_GetModuleHandleW (widen ''kernel32'') 0x7FFA10000000,
           Ev_GetProcAddress 0x7FFA10000000 ''IsWow64Process'' 0x7FFA1002B3C0,
           Ev_call_IsWow64Process 0x7FFA1002B3C0 0x2C8 1 0]))
   \<and> is64bit test_env_x86 test_target (0, []) =
       (Inr False, (0, [Ev_MyGetSystemInfo PROCESSOR_ARCHITECTURE_INTEL]))
   \<and> is64bit test_env_arm test_target (0, []) =
       (Inl (ex_injection, [e_text ''failed to determine whether x86 or x64'', e_pid 1234]),
        (0, [Ev_MyGetSystemInfo 5]))"
proof -
  have a: "MyGetSystemInfo test_env 0 = (PROCESSOR_ARCHITECTURE_AMD64, 0)"
    and b: "MyGetSystemInfo test_env_x86 0 = (PROCESSOR_ARCHITECTURE_INTEL, 0)"
    and c: "MyGetSystemInfo test_env_arm 0 = (5, 0)"
    by (simp_all add: test_defs)
  have k: "GetModuleHandleW test_env (widen ''kernel32'') 0 = (0x7FFA10000000, 0)"
    and f: "GetProcAddress test_env 0x7FFA10000000 ''IsWow64Process'' 0 = (0x7FFA1002B3C0, 0)"
    and q: "call_IsWow64Process test_env 0x7FFA1002B3C0 (proc_handle test_target) 0 = ((1, 0), 0)"
    by (simp_all add: test_defs)
  from is64bit_by_architecture[OF a, where self = test_target and k = "0x7FFA10000000"
         and ?s2.0 = 0 and f = "0x7FFA1002B3C0" and ?s3.0 = 0 and ret = 1 and ?bIsWow64.0 = 0
         and ?s4.0 = 0]
       is64bit_by_architecture[OF b, where self = test_target]
       is64bit_by_architecture[OF c, where self = test_target] k f q
  show ?thesis
    by (simp add: test_target_def PROCESSOR_ARCHITECTURE_AMD64_def PROCESSOR_ARCHITECTURE_INTEL_def)
qed

subsection \<open>C1: a library that is already loaded\<close>

text \<open>
  C1. \<^verbatim>\<open>Process::inject\<close> first resolves \<^verbatim>\<open>LoadLibraryW\<close> of \<^verbatim>\<open>kernel32\<close> in the current
  process (lines 55 and 56), then looks for the library in the module list of the target
  (line 58). With \<^verbatim>\<open>kernel32\<close> found and the export resolved, as in every process of the
  platform, if the library is in the module list of the target at the check,
  \<^verbatim>\<open>inject\<close> fails with the \<^verbatim>\<open>ex_injection\<close> "module already in process" carrying the
  path of the library and the pid of the target, and the calls it has made are these
  three: no remote allocation and no remote thread.
\<close>

theorem inject_already_injected:
  assumes "GetModuleHandleW env (widen ''kernel32'') s = (k, s1)" and "k \<noteq> 0"
    and "GetProcAddress env k ''LoadLibraryW'' s1 = (f, s2)" and "f \<noteq> 0"
    and "ModuleInjectedW env (proc_handle self) (lib_ntFilename lib) s2 = (b, s3)" and "b \<noteq> 0"
  shows "inject env self lib verbose (s, []) =
           (Inl (ex_injection,
                 [e_text ''module already in process'', e_module (lib_path lib),
                  e_pid (proc_id self)]),
            (s3, [Ev_GetModuleHandleW (widen ''kernel32'') k,
                  Ev_GetProcAddress k ''LoadLibraryW'' f,
                  Ev_ModuleInjectedW (proc_handle self) (lib_ntFilename lib) b]))"
  using assms
  by (simp add: inject_def Module_named_found getProcAddress_current_found os_call_def)

text \<open>C1, at a concrete input.\<close>

theorem inject_already_injected_witness:
  "inject test_env_present test_target test_library True (0, []) =
     (Inl (ex_injection,
           [e_text ''module already in process'', e_module (lib_path test_library), e_pid 1234]),
      (0, [Ev_GetModuleHandleW (widen ''kernel32'') 0x7FFA10000000,
           Ev_GetProcAddress 0x7FFA10000000 ''LoadLibraryW'' 0x7FFA1001F0A0,
           Ev_ModuleInjectedW 0x2C8 (lib_ntFilename test_library) 0x6F000000]))"
proof -
  have k: "GetModuleHandleW test_env_present (widen ''kernel32'') 0 = (0x7FFA10000000, 0)"
    and f: "GetProcAddress test_env_present 0x7FFA10000000 ''LoadLibraryW'' 0 = (0x7FFA1001F0A0, 0)"
    and b: "ModuleInjectedW test_env_present (proc_handle test_target) (lib_ntFilename test_library) 0
              = (0x6F000000, 0)"
    by (simp_all add: test_defs)
  from inject_already_injected[OF k _ f _ b, where verbose = True] show ?thesis
    by (simp add: test_target_def)
qed

subsection \<open>C2: the library is not seen after the remote thread has ended\<close>

text \<open>
  C2, as stated, fails in its second half: line 124 throws only when the exit code of
  the remote thread is 0. In this run the library is in the module list of the target
  neither before nor after the remote thread, the thread ends with exit code 1, and
  \<^verbatim>\<open>inject\<close> returns normally.
\<close>

theorem inject_absent_after_wait_counterexample:
  "inject test_env_unseen test_target test_library False (0, []) =
     (Inr (),
      (1, [Ev_GetModuleHandleW (widen ''kernel32'') 0x7FFA10000000,
           Ev_GetProcAddress 0x7FFA10000000 ''LoadLibraryW'' 0x7FFA1001F0A0,
           Ev_ModuleInjectedW 0x2C8 (lib_ntFilename test_library) 0,
           Ev_VirtualAllocEx 0x2C8 18 0x30000,
           Ev_WriteProcessMemory 0x2C8 0x30000 (lib_path test_library) 18 True 18,
           Ev_FlushInstructionCache 0x2C8 0x30000 18 True,
           Ev_createRemoteThread test_target 0x7FFA1001F0A0 0x30000 (Inr test_thread),
           Ev_setPriority test_thread 15 (Inr ()),
           Ev_hideFromDebugger test_thread (Inr ()),
           Ev_waitForTermination test_thread (Inr 1),
           Ev_ModuleInjectedW 0x2C8 (lib_ntFilename test_library) 0,
           Ev_VirtualFreeEx 0x2C8 0x30000]))"
  by (simp add: run_defs test_defs)

text \<open>
  C2, amended. In \<^verbatim>\<open>Process::inject\<close>, after waiting for the remote thread: if the
  library is not found in the module list of the target and the exit code of the thread
  is 0, \<^verbatim>\<open>inject\<close> throws the \<^verbatim>\<open>ex_injection\<close> "unknown error (LoadLibraryW)"; if the
  library is not found and the exit code is not 0, \<^verbatim>\<open>inject\<close> returns normally.
\<close>

theorem inject_absent_after_wait:
  assumes "inject env self lib verbose (s, []) = (r, (s', t))"
    and "Ev_waitForTermination th (Inr exitCode) \<in> set t"
    and "\<forall>h n b. Ev_ModuleInjectedW h n b \<in> set t \<longrightarrow> b = 0"
  shows "r = (if exitCode = 0 then Inl (ex_injection, [e_text ''unknown error (LoadLibraryW)''])
              else Inr ())"
proof -
  have run: "(r, s', t) = inject env self lib verbose (s, [])"
    using assms(1) by simp
  show ?thesis
    using run assms(2,3)
    by (cases rule: inject_paths[of env self lib verbose s]) simp_all
qed

text \<open>
  C2, amended, at a concrete input: the library is never seen and the remote thread
  ends with exit code 0.
\<close>

theorem inject_absent_after_wait_witness:
  "trace_of (inject test_env_failed_load test_target test_library False (0, [])) =
     [Ev_GetModuleHandleW (widen ''kernel32'') 0x7FFA10000000,
      Ev_GetProcAddress 0x7FFA10000000 ''LoadLibraryW'' 0x7FFA1001F0A0,
      Ev_ModuleInjectedW 0x2C8 (lib_ntFilename test_library) 0,
      Ev_VirtualAllocEx 0x2C8 18 0x30000,
      Ev_WriteProcessMemory 0x2C8 0x30000 (lib_path test_library) 18 True 18,
      Ev_FlushInstructionCache 0x2C8 0x30000 18 True,
      Ev_createRemoteThread test_target 0x7FFA1001F0A0 0x30000 (Inr test_thread),
      Ev_setPriority test_thread 15 (Inr ()),
      Ev_hideFromDebugger test_thread (Inr ()),
      Ev_waitForTermination test_thread (Inr 0),
      Ev_ModuleInjectedW 0x2C8 (lib_ntFilename test_library) 0,
      Ev_VirtualFreeEx 0x2C8 0x30000]
   \<and> fst (inject test_env_failed_load test_target test_library False (0, [])) =
       Inl (ex_injection, [e_text ''unknown error (LoadLibraryW)''])"
proof -
  have run: "inject test_env_failed_load test_target test_library False (0, []) =
     (Inl (ex_injection, [e_text ''unknown error (LoadLibraryW)'']),
      (1, [Ev_GetModuleHandleW (widen ''kernel32'') 0x7FFA10000000,
           Ev_GetProcAddress 0x7FFA10000000 ''LoadLibraryW'' 0x7FFA1001F0A0,
           Ev_ModuleInjectedW 0x2C8 (lib_ntFilename test_library) 0,
           Ev_VirtualAllocEx 0x2C8 18 0x30000,
           Ev_WriteProcessMemory 0x2C8 0x30000 (lib_path test_library) 18 True 18,
           Ev_FlushInstructionCache 0x2C8 0x30000 18 True,
           Ev_createRemoteThread test_target 0x7FFA1001F0A0 0x30000 (Inr test_thread),
           Ev_setPriority test_thread 15 (Inr ()),
           Ev_hideFromDebugger test_thread (Inr ()),
           Ev_waitForTermination test_thread (Inr 0),
           Ev_ModuleInjectedW 0x2C8 (lib_ntFilename test_library) 0,
           Ev_VirtualFreeEx 0x2C8 0x30000]))"
    by (simp add: run_defs test_defs)
  have waited: "Ev_waitForTermination test_thread (Inr 0)
      \<in> set (trace_of (inject test_env_failed_load test_target test_library False (0, [])))"
    by (simp add: run trace_of_def)
  have unseen: "\<forall>h n b. Ev_ModuleInjectedW h n b
      \<in> set (trace_of (inject test_env_failed_load test_target test_library False (0, [])))
      \<longrightarrow> b = 0"
    by (simp add: run trace_of_def)
  have whole: "inject test_env_failed_load test_target test_library False (0, []) =
      (fst (inject test_env_failed_load test_target test_library False (0, [])),
       (fst (snd (inject test_env_failed_load test_target test_library False (0, []))),
        trace_of (inject test_env_failed_load test_target test_library False (0, []))))"
    by (simp add: trace_of_def)
  have calls: "trace_of (inject test_env_failed_load test_target test_library False (0, [])) =
      snd (snd (inject test_env_failed_load test_target test_library False (0, [])))"
    by (simp add: trace_of_def)
  from inject_absent_after_wait[OF whole waited unseen] show ?thesis
    unfolding calls by (simp add: run)
qed

subsection \<open>C3: where the loader export is resolved\<close>

text \<open>
  C3, as stated, fails. In this run, in which every step succeeds, the address of
  \<^verbatim>\<open>LoadLibraryW\<close> is resolved by the first two calls, before the check of the module
  list of the target, by asking the export table of \<^verbatim>\<open>kernel32\<close> of the current process
  (the direct path of \<^verbatim>\<open>getProcAddress\<close>); no probe copy is loaded, and no call lies
  between the cache flush and the creation of the remote thread.
\<close>

theorem inject_resolves_first_counterexample:
  "trace_of (inject test_env test_target test_library False (0, [])) =
     [Ev_GetModuleHandleW (widen ''kernel32'') 0x7FFA10000000,
      Ev_GetProcAddress 0x7FFA10000000 ''LoadLibraryW'' 0x7FFA1001F0A0,
      Ev_ModuleInjectedW 0x2C8 (lib_ntFilename test_library) 0,
      Ev_VirtualAllocEx 0x2C8 18 0x30000,
      Ev_WriteProcessMemory 0x2C8 0x30000 (lib_path test_library) 18 True 18,
      Ev_FlushInstructionCache 0x2C8 0x30000 18 True,
      Ev_createRemoteThread test_target 0x7FFA1001F0A0 0x30000 (Inr test_thread),
      Ev_setPriority test_thread 15 (Inr ()),
      Ev_hideFromDebugger test_thread (Inr ()),
      Ev_waitForTermination test_thread (Inr 0x6F000000),
      Ev_ModuleInjectedW 0x2C8 (lib_ntFilename test_library) 0x6F000000,
      Ev_ReadProcessMemory 0x2C8 0x6F000000 64 True 64,
      Ev_ReadProcessMemory 0x2C8 0x6F000080 264 True 264,
      Ev_VirtualFreeEx 0x2C8 0x30000]"
  by (simp add: run_defs test_defs trace_of_def)

text \<open>
  C3, amended. \<^verbatim>\<open>Process::inject\<close> executes as a strict linear sequence in which the
  address of \<^verbatim>\<open>LoadLibraryW\<close> is resolved first, in the current process, by the direct
  path of \<^verbatim>\<open>getProcAddress\<close> on \<^verbatim>\<open>Module("kernel32")\<close>: the first call is the lookup of
  \<^verbatim>\<open>kernel32\<close>, no probe copy is loaded and no module path is asked, every check of the
  module list comes after the two resolving calls, and a remote thread is created only
  as the seventh call, after resolution, idempotency check, remote allocation, remote
  write and cache flush, with the resolved address as its start address and the
  allocated buffer as its argument.
\<close>

theorem inject_resolves_first:
  assumes "inject env self lib verbose (s, []) = (r, (s', t))"
  shows "(\<exists>k. take 1 t = [Ev_GetModuleHandleW (widen ''kernel32'') k])
       \<and> (\<forall>p flags q. Ev_LoadLibraryExW p flags q \<notin> set t)
       \<and> (\<forall>m p. Ev_Module_path m p \<notin> set t)
       \<and> (\<forall>h n b. Ev_ModuleInjectedW h n b \<in> set t \<longrightarrow>
            (\<exists>k f. f \<noteq> 0 \<and> take 2 t = [Ev_GetModuleHandleW (widen ''kernel32'') k,
                                          Ev_GetProcAddress k ''LoadLibraryW'' f]))
       \<and> (\<forall>p f a th. Ev_createRemoteThread p f a th \<in> set t \<longrightarrow>
            (\<exists>k. take 7 t =
               [Ev_GetModuleHandleW (widen ''kernel32'') k,
                Ev_GetProcAddress k ''LoadLibraryW'' f,
                Ev_ModuleInjectedW (proc_handle self) (lib_ntFilename lib) 0,
                Ev_VirtualAllocEx (proc_handle self) (LibPathLen lib) a,
                Ev_WriteProcessMemory (proc_handle self) a (lib_path lib) (LibPathLen lib) True
                  (LibPathLen lib),
                Ev_FlushInstructionCache (proc_handle self) a (LibPathLen lib) True,
                Ev_createRemoteThread self f a th]))"
proof -
  have run: "(r, s', t) = inject env self lib verbose (s, [])"
    using assms by simp
  show ?thesis
    using run
    by (cases rule: inject_paths[of env self lib verbose s]) simp_all
qed

text \<open>
  C3, amended, at a concrete input: a run that creates the remote thread, as its
  seventh call.
\<close>

theorem inject_resolves_first_witness:
  "Ev_createRemoteThread test_target 0x7FFA1001F0A0 0x30000 (Inr test_thread)
     \<in> set (trace_of (inject test_env test_target test_library True (0, [])))
   \<and> Ev_ModuleInjectedW 0x2C8 (lib_ntFilename test_library) 0
     \<in> set (trace_of (inject test_env test_target test_library True (0, [])))
   \<and> take 7 (trace_of (inject test_env test_target test_library True (0, []))) =
       [Ev_GetModuleHandleW (widen ''kernel32'') 0x7FFA10000000,
        Ev_GetProcAddress 0x7FFA10000000 ''LoadLibraryW'' 0x7FFA1001F0A0,
        Ev_ModuleInjectedW 0x2C8 (lib_ntFilename test_library) 0,
        Ev_VirtualAllocEx 0x2C8 18 0x30000,
        Ev_WriteProcessMemory 0x2C8 0x30000 (lib_path test_library) 18 True 18,
        Ev_FlushInstructionCache 0x2C8 0x30000 18 True,
        Ev_createRemoteThread test_target 0x7FFA1001F0A0 0x30000 (Inr test_thread)]"
proof -
  have run: "inject test_env test_target test_library True (0, []) =
     (Inr (),
      (1, [Ev_GetModuleHandleW (widen ''kernel32'') 0x7FFA10000000,
           Ev_GetProcAddress 0x7FFA10000000 ''LoadLibraryW'' 0x7FFA1001F0A0,
           Ev_ModuleInjectedW 0x2C8 (lib_ntFilename test_library) 0,
           Ev_VirtualAllocEx 0x2C8 18 0x30000,
           Ev_WriteProcessMemory 0x2C8 0x30000 (lib_path test_library) 18 True 18,
           Ev_FlushInstructionCache 0x2C8 0x30000 18 True,
           Ev_createRemoteThread test_target 0x7FFA1001F0A0 0x30000 (Inr test_thread),
           Ev_setPriority test_thread 15 (Inr ()),
           Ev_hideFromDebugger test_thread (Inr ()),
           Ev_waitForTermination test_thread (Inr 0x6F000000),
           Ev_ModuleInjectedW 0x2C8 (lib_ntFilename test_library) 0x6F000000,
           Ev_ReadProcessMemory 0x2C8 0x6F000000 64 True 64,
           Ev_ReadProcessMemory 0x2C8 0x6F000080 264 True 264,
           Ev_wprintf (lib_ntFilename test_library) 1234 0x6F000000 0x6F001000 0x8000 0 0x6F000000,
           Ev_VirtualFreeEx 0x2C8 0x30000]))"
    by (simp add: run_defs test_defs)
  from inject_resolves_first[OF run] show ?thesis
    unfolding run trace_of_def
    by (simp add: LibPathLen_def wcslen_def sizeof_wchar_t_def test_defs)
qed

subsection \<open>C5: the release of the remote buffer\<close>

text \<open>
  C5, as stated, fails in its last clause. In this run \<^verbatim>\<open>VirtualAllocEx\<close> returns null:
  no allocation has succeeded, line 74 throws, and the \<^verbatim>\<open>shared_ptr\<close>, which owns the
  null pointer with its deleter, still issues one \<^verbatim>\<open>VirtualFreeEx\<close> request, on the null
  pointer: one deallocation attempt, no successful allocation.
\<close>

theorem inject_release_pairs_counterexample:
  "trace_of (inject test_env_no_memory test_target test_library False (0, [])) =
     [Ev_GetModuleHandleW (widen ''kernel32'') 0x7FFA10000000,
      Ev_GetProcAddress 0x7FFA10000000 ''LoadLibraryW'' 0x7FFA1001F0A0,
      Ev_ModuleInjectedW 0x2C8 (lib_ntFilename test_library) 0,
      Ev_VirtualAllocEx 0x2C8 18 0,
      Ev_VirtualFreeEx 0x2C8 0]
   \<and> length (deallocations
         (trace_of (inject test_env_no_memory test_target test_library False (0, [])))) = 1
   \<and> length (successful_allocations
         (trace_of (inject test_env_no_memory test_target test_library False (0, [])))) = 0"
  by (simp add: run_defs test_defs trace_of_def deallocations_def allocations_def
        successful_allocations_def successful_def)

text \<open>
  C5, amended. On every execution of \<^verbatim>\<open>Process::inject\<close> the deallocation requests
  issued in the target are exactly the allocation calls made, each with the process
  handle and the pointer that the allocation call returned, and there is at most one.
  So on every exit path reached after the remote buffer allocation succeeds, failing
  paths included, exactly one deallocation request for that buffer is issued, and on a
  path that ends before the allocation call none is; when the allocation call returns
  null, one deallocation request on the null pointer is issued all the same, so the
  number of deallocation attempts equals the number of allocation calls, not of
  successful allocations.
\<close>

theorem inject_release_pairs:
  "deallocations (trace_of (inject env self lib verbose (s, []))) =
     allocations (trace_of (inject env self lib verbose (s, [])))
   \<and> length (allocations (trace_of (inject env self lib verbose (s, [])))) \<le> 1"
  by (cases rule: inject_paths[of env self lib verbose s])
     (simp_all add: deallocations_def allocations_def trace_of_def)

text \<open>
  C5, amended, at a concrete input: a run in which every step succeeds makes one
  allocation and one deallocation request, for the buffer that was allocated.
\<close>

theorem inject_release_pairs_witness:
  "deallocations (trace_of (inject test_env test_target test_library False (0, []))) =
     [(0x2C8, 0x30000)]
   \<and> allocations (trace_of (inject test_env test_target test_library False (0, []))) =
     [(0x2C8, 0x30000)]"
proof -
  have "allocations (trace_of (inject test_env test_target test_library False (0, []))) =
     [(0x2C8, 0x30000)]"
    by (simp add: run_defs test_defs trace_of_def allocations_def)
  with inject_release_pairs[of test_env test_target test_library False 0] show ?thesis
    by simp
qed

subsection \<open>C9: the size of the remote buffer and the write into it\<close>

text \<open>
  C9. In every run of \<^verbatim>\<open>Process::inject\<close>, the remote buffer is allocated with size
  exactly (number of characters of the path string of the library, plus one terminator)
  times the width of a character. The remote write goes to the allocated buffer with
  that size; unless the write succeeds and the written byte count it reports equals
  that size, \<^verbatim>\<open>inject\<close> throws the \<^verbatim>\<open>ex_injection\<close> "could not write to memory in remote
  process" and no cache flush is made; after an exact-length write the next step, the
  cache flush over that buffer, is made.
\<close>

theorem inject_write_exact:
  assumes "inject env self lib verbose (s, []) = (r, (s', t))"
  shows "(\<forall>h n a. Ev_VirtualAllocEx h n a \<in> set t \<longrightarrow>
            n = (wcslen (lib_path lib) + 1) * sizeof_wchar_t)
       \<and> (\<forall>h a src n ok written. Ev_WriteProcessMemory h a src n ok written \<in> set t \<longrightarrow>
            n = (wcslen (lib_path lib) + 1) * sizeof_wchar_t
            \<and> (\<exists>h' n'. Ev_VirtualAllocEx h' n' a \<in> set t)
            \<and> (if ok \<and> written = n then \<exists>fl. Ev_FlushInstructionCache h a n fl \<in> set t
               else r = Inl (ex_injection, [e_text ''could not write to memory in remote process''])
                    \<and> (\<forall>h' a' n' fl. Ev_FlushInstructionCache h' a' n' fl \<notin> set t)))"
proof -
  have run: "(r, s', t) = inject env self lib verbose (s, [])"
    using assms by simp
  show ?thesis
    using run
    by (cases rule: inject_paths[of env self lib verbose s])
       (simp_all add: LibPathLen_def, blast+)
qed

text \<open>
  C9, at a concrete input: a path of 8 characters, a buffer of 18 bytes, and a write
  that reports 16 bytes written.
\<close>

theorem inject_write_exact_witness:
  "Ev_VirtualAllocEx 0x2C8 18 0x30000
     \<in> set (trace_of (inject test_env_short_write test_target test_library False (0, [])))
   \<and> Ev_WriteProcessMemory 0x2C8 0x30000 (lib_path test_library) 18 True 16
     \<in> set (trace_of (inject test_env_short_write test_target test_library False (0, [])))
   \<and> (wcslen (lib_path test_library) + 1) * sizeof_wchar_t = 18
   \<and> fst (inject test_env_short_write test_target test_library False (0, [])) =
       Inl (ex_injection, [e_text ''could not write to memory in remote process''])"
proof -
  have run: "inject test_env_short_write test_target test_library False (0, []) =
     (Inl (ex_injection, [e_text ''could not write to memory in remote process'']),
      (0, [Ev_GetModuleHandleW (widen ''kernel32'') 0x7FFA10000000,
           Ev_GetProcAddress 0x7FFA10000000 ''LoadLibraryW'' 0x7FFA1001F0A0,
           Ev_ModuleInjectedW 0x2C8 (lib_ntFilename test_library) 0,
           Ev_VirtualAllocEx 0x2C8 18 0x30000,
           Ev_WriteProcessMemory 0x2C8 0x30000 (lib_path test_library) 18 True 16,
           Ev_VirtualFreeEx 0x2C8 0x30000]))"
    by (simp add: run_defs test_defs)
  from inject_write_exact[OF run] show ?thesis
    unfolding run trace_of_def
    by (simp add: wcslen_def sizeof_wchar_t_def test_defs)
qed

subsection \<open>C4: the two ways to an export address\<close>

text \<open>
  C4. Let a module be loaded in the current process, and let an export name resolve in
  it by the direct path, to the address \<open>d\<close>. Treat the same module as if it were
  remote. Then \<^verbatim>\<open>getProcAddress\<close> asks the path of the module, loads a probe copy of that
  file (at some base \<open>q\<close>) without resolving its references, looks the export up in the
  probe copy (at some address \<open>a\<close>), releases the probe copy, and returns the recorded
  base of the module plus the offset \<open>a - q\<close> of the export in the probe copy, whatever
  \<open>a\<close> and \<open>q\<close> are. This result is the address of the direct path exactly when the
  export has the same offset from the base in the probe copy as in the module; export
  addresses are image-relative (the export lies at \<open>base + rva\<close> in every copy of the
  image), so the two ways return the same address.
\<close>

theorem getProcAddress_probe_agrees:
  assumes "mod_process m = current env"
    and "Process_neq (mod_process m') (current env)" and "mod_handle m' = mod_handle m"
    and "GetProcAddress env (mod_handle m) procName s = (d, sd)" and "d \<noteq> 0"
    and "Module_path env m' s = (Inr p, s1)"
    and "LoadLibraryExW env p DONT_RESOLVE_DLL_REFERENCES s1 = (q, s2)" and "q \<noteq> 0"
    and "GetProcAddress env q procName s2 = (a, s3)" and "a \<noteq> 0"
    and "FreeLibrary env q s3 = (u, s4)"
  shows "getProcAddress env m' procName True (s, t) =
           (Inr (mod_handle m' + (a - q)),
            (s4, t @ [Ev_Module_path m' (Inr p),
                      Ev_LoadLibraryExW p DONT_RESOLVE_DLL_REFERENCES q,
                      Ev_GetProcAddress q procName a,
                      Ev_FreeLibrary q]))
       \<and> getProcAddress env m procName True (s, t) =
           (Inr d, (sd, t @ [Ev_GetProcAddress (mod_handle m) procName d]))
       \<and> ((fst (getProcAddress env m' procName True (s, t)) =
            fst (getProcAddress env m procName True (s, t))) =
           (a - q = d - mod_handle m))
       \<and> (a = q + rva \<and> d = mod_handle m + rva \<longrightarrow>
            fst (getProcAddress env m' procName True (s, t)) =
            fst (getProcAddress env m procName True (s, t)))"
proof -
  have direct: "getProcAddress env m procName True (s, t) =
      (Inr d, (sd, t @ [Ev_GetProcAddress (mod_handle m) procName d]))"
    using assms(1,4,5) by (simp add: getProcAddress_current_found)
  have probe: "getProcAddress env
                 \<lparr>mod_handle = q, mod_process = current env, mod_FreeLibrary = True\<rparr>
                 procName True w =
               (Inr a, (s3, snd w @ [Ev_GetProcAddress q procName a]))"
    if "fst w = s2" for w
    using that assms(9,10) by (cases w) (simp add: getProcAddress_current_found)
  have remote: "getProcAddress env m' procName True (s, t) =
      (Inr (mod_handle m' + (a - q)),
       (s4, t @ [Ev_Module_path m' (Inr p),
                 Ev_LoadLibraryExW p DONT_RESOLVE_DLL_REFERENCES q,
                 Ev_GetProcAddress q procName a,
                 Ev_FreeLibrary q]))"
    using assms(2,6,7,8,11)
    by (subst getProcAddress.simps)
       (simp add: os_call_def load_def scoped_def Module_release_def probe split_beta)
  have offsets: "(mod_handle m + (a - q) = d) = (a - q = d - mod_handle m)"
    by (auto simp add: algebra_simps)
  from direct remote offsets assms(3) show ?thesis
    by simp
qed

text \<open>
  C4, at a concrete input: \<^verbatim>\<open>kernel32\<close> of the current process, its export
  \<^verbatim>\<open>LoadLibraryW\<close>, and the same module taken as a module of the target process. The
  probe copy lies at another base than the module, and the offset of the export is the
  same in both.
\<close>

theorem getProcAddress_probe_agrees_witness:
  "getProcAddress test_env test_kernel32_remote ''LoadLibraryW'' True (0, []) =
     (Inr 0x7FFA1001F0A0,
      (0, [Ev_Module_path test_kernel32_remote (Inr [0x6B, 0x2E, 0x64, 0x6C, 0x6C]),
           Ev_LoadLibraryExW [0x6B, 0x2E, 0x64, 0x6C, 0x6C] DONT_RESOLVE_DLL_REFERENCES 0x10000000,
           Ev_GetProcAddress 0x10000000 ''LoadLibraryW'' 0x1001F0A0,
           Ev_FreeLibrary 0x10000000]))
   \<and> getProcAddress test_env test_kernel32 ''LoadLibraryW'' True (0, []) =
     (Inr 0x7FFA1001F0A0, (0, [Ev_GetProcAddress 0x7FFA10000000 ''LoadLibraryW'' 0x7FFA1001F0A0]))
   \<and> (0x1001F0A0 :: addr) - 0x10000000 = 0x7FFA1001F0A0 - 0x7FFA10000000
   \<and> fst (getProcAddress test_env test_kernel32_remote ''LoadLibraryW'' True (0, [])) =
     fst (getProcAddress test_env test_kernel32 ''LoadLibraryW'' True (0, []))"
proof -
  have h1: "mod_process test_kernel32 = current test_env"
    and h2: "Process_neq (mod_process test_kernel32_remote) (current test_env)"
    and h3: "mod_handle test_kernel32_remote = mod_handle test_kernel32"
    and h4: "GetProcAddress test_env (mod_handle test_kernel32) ''LoadLibraryW'' 0 =
               (0x7FFA1001F0A0, 0)"
    and h5: "(0x7FFA1001F0A0 :: addr) \<noteq> 0"
    and h6: "Module_path test_env test_kernel32_remote 0 = (Inr [0x6B, 0x2E, 0x64, 0x6C, 0x6C], 0)"
    and h7: "LoadLibraryExW test_env [0x6B, 0x2E, 0x64, 0x6C, 0x6C] DONT_RESOLVE_DLL_REFERENCES 0 =
               (0x10000000, 0)"
    and h8: "(0x10000000 :: addr) \<noteq> 0"
    and h9: "GetProcAddress test_env 0x10000000 ''LoadLibraryW'' 0 = (0x1001F0A0, 0)"
    and h10: "(0x1001F0A0 :: addr) \<noteq> 0"
    and h11: "FreeLibrary test_env 0x10000000 0 = ((), 0)"
    by (simp_all add: test_defs Process_neq_def)
  from getProcAddress_probe_agrees[OF h1 h2 h3 h4 h5 h6 h7 h8 h9 h10 h11,
         where t = "[]" and rva = "0x1F0A0"]
  show ?thesis
    by (simp add: test_kernel32_def test_kernel32_remote_def)
qed

subsection \<open>C6: \<^verbatim>\<open>getProcAddress\<close> with \<^verbatim>\<open>throwing = false\<close>\<close>

text \<open>
  C6 does not hold of the code. The module belongs to another process, \<^verbatim>\<open>throwing\<close> is
  false, the probe copy loads, and the export is absent from the probe copy: the call
  \<^verbatim>\<open>localModule.getProcAddress(procName)\<close> of line 81 runs with the default
  \<^verbatim>\<open>throwing = true\<close> and throws, where the claim has the null address returned.
\<close>

theorem getProcAddress_nonthrowing_probe_throws:
  "getProcAddress test_env test_kernel32_remote ''nope'' False (0, []) =
     (Inl (ex_injection,
           [e_api_function ''GetProcAddress'',
            e_text (''could not get the address of '' @ quoted ''nope''),
            e_last_error 127]),
      (0, [Ev_Module_path test_kernel32_remote (Inr [0x6B, 0x2E, 0x64, 0x6C, 0x6C]),
           Ev_LoadLibraryExW [0x6B, 0x2E, 0x64, 0x6C, 0x6C] DONT_RESOLVE_DLL_REFERENCES 0x10000000,
           Ev_GetProcAddress 0x10000000 ''nope'' 0,
           Ev_FreeLibrary 0x10000000]))"
proof -
  have inner: "getProcAddress test_env
                 \<lparr>mod_handle = 0x10000000, mod_process = current test_env, mod_FreeLibrary = True\<rparr>
                 ''nope'' True (0, t) =
               (Inl (ex_injection,
                     [e_api_function ''GetProcAddress'',
                      e_text (''could not get the address of '' @ quoted ''nope''),
                      e_last_error 127]),
                (0, t @ [Ev_GetProcAddress 0x10000000 ''nope'' 0]))" for t
    by (simp add: getProcAddress_current os_call_def test_env_def test_rva_def)
  have remote: "Process_neq (mod_process test_kernel32_remote) (current test_env)"
    by (simp add: test_defs Process_neq_def)
  have path: "Module_path test_env test_kernel32_remote 0 = (Inr [0x6B, 0x2E, 0x64, 0x6C, 0x6C], 0)"
    and probe: "LoadLibraryExW test_env [0x6B, 0x2E, 0x64, 0x6C, 0x6C] DONT_RESOLVE_DLL_REFERENCES 0 =
                  (0x10000000, 0)"
    and release: "FreeLibrary test_env 0x10000000 0 = ((), 0)"
    by (simp_all add: test_env_def)
  show ?thesis
    by (subst getProcAddress.simps)
       (simp add: remote path probe release inner os_call_def load_def scoped_def
          Module_release_def)
qed

end
